theory Spec2Isabelle
  imports Complex_Main "HOL-Library.Word"
begin

unbundle bit_operations_syntax

section \<open>Data model (internal/domain)\<close>

text \<open>
  Go's \<open>int\<close> on the 64-bit targets the service is built for is a 64-bit two's
  complement integer: \<open>+\<close>, \<open>-\<close> and unary minus wrap around, comparisons are signed
  (\<open>sint\<close>).
\<close>

type_synonym go_int = "64 word"

text \<open>
  A \<open>float64\<close>, as far as the code looks at it: the service only compares a price with
  zero. A comparison with a NaN operand is false in Go, whatever the operator.
\<close>

datatype float64 = NaN | NegInf | Finite real | PosInf

definition f64_le_zero :: "float64 \<Rightarrow> bool" where
  "f64_le_zero x = (case x of NaN \<Rightarrow> False | NegInf \<Rightarrow> True | Finite r \<Rightarrow> r \<le> 0 | PosInf \<Rightarrow> False)"

definition f64_gt_zero :: "float64 \<Rightarrow> bool" where
  "f64_gt_zero x = (case x of NaN \<Rightarrow> False | NegInf \<Rightarrow> False | Finite r \<Rightarrow> 0 < r | PosInf \<Rightarrow> True)"

text \<open>\<open>time.Time\<close> as a clock reading; the zero time is 0 (\<open>IsZero\<close>).\<close>

type_synonym Time = nat

text \<open>\<open>primitive.ObjectID\<close> is \<open>[12]byte\<close>; \<open>NilObjectID\<close> is twelve zero bytes.\<close>

type_synonym ObjectID = "8 word list"

definition NilObjectID :: ObjectID where
  "NilObjectID = [0, 0, 0, 0, 0, 0, 0, 0, 0, 0, 0, 0]"

definition IsZero :: "ObjectID \<Rightarrow> bool" where
  "IsZero oid = (oid = NilObjectID)"

record InventoryInfo =
  Quantity :: go_int
  SKU :: string
  InStock :: bool
  Reserved :: go_int

record Product =
  ID :: ObjectID
  Name :: string
  Description :: string
  Price :: float64
  ImageURLs :: "string list"
  Category :: string
  Inventory :: InventoryInfo
  Tags :: "string list"
  Attributes :: "(string \<times> string) list"
  Active :: bool
  CreatedAt :: Time
  UpdatedAt :: Time

record InventoryOperation =
  ProductID :: string
  QuantityChange :: go_int
  OperationID :: string
  OperationType :: string
  Timestamp :: Time

section \<open>Errors\<close>

text \<open>
  What a repository method can return as \<open>error\<close>: the driver's errors and the
  repository's own \<open>errors.New("product not found")\<close>.
\<close>

datatype store_error =
    ErrInvalidHex
  | InvalidByteError
  | ErrNoDocuments
  | ErrProductNotFound
  | ErrDuplicateKey
  | ErrIncOverflow
  | ErrDriver string

text \<open>The four messages of \<open>validateProduct\<close>.\<close>

datatype validation_error =
    NameRequired
  | PriceNotGreaterThanZero
  | CategoryRequired
  | SKURequired

text \<open>
  The service's errors: \<open>fmt.Errorf("validation error: %w")\<close>,
  \<open>"repository error: %w"\<close>, \<open>"product not found: %w"\<close>,
  \<open>"stock check error: %w"\<close>, and the two \<open>errors.New\<close> of \<open>UpdateInventory\<close>.
\<close>

datatype service_error =
    ValidationError validation_error
  | RepositoryError store_error
  | ProductNotFoundError store_error
  | InvalidOperationType
  | StockCheckError store_error
  | InsufficientStock

section \<open>The MongoDB collections and the driver calls the repository makes\<close>

text \<open>
  The two collections the repository touches: the product collection, a document per
  \<open>_id\<close>, and \<open>inventory_operations\<close>, in insertion order. The source creates no
  index on \<open>inventory_operations\<close>.
\<close>

record database =
  products :: "ObjectID \<rightharpoonup> Product"
  inventory_operations :: "InventoryOperation list"

text \<open>
  Every driver call can fail for reasons outside the program (time-out, network, write
  conflict with another session, a constraint of the deployment): the environment of a
  call says, per call site, whether the driver returns an error there. It also holds what
  \<open>time.Now()\<close> and \<open>primitive.NewObjectID()\<close> return; the calls of
  \<open>time.Now()\<close> within one method read the same value.
\<close>

datatype call_site =
    Create_InsertOne
  | GetByID_FindOne
  | Update_ReplaceOne
  | CheckStock_FindOne
  | UpdateInventory_StartSession
  | UpdateInventory_StartTransaction
  | UpdateInventory_FindOperation
  | UpdateInventory_FindProduct
  | UpdateInventory_InsertOperation
  | UpdateInventory_FindOneAndUpdate
  | UpdateInventory_UpdateOne
  | UpdateInventory_CommitTransaction

record environment =
  time_Now :: Time
  NewObjectID :: ObjectID
  failure :: "call_site \<Rightarrow> store_error option"

text \<open>
  \<open>primitive.ObjectIDFromHex\<close>: 24 hexadecimal digits, either case; another length is
  \<open>ErrInvalidHex\<close>, a character that is no digit is \<open>encoding/hex\<close>'s
  \<open>InvalidByteError\<close>.
\<close>

definition fromHexChar :: "char \<Rightarrow> 8 word option" where
  "fromHexChar c =
     (let n = (of_char c :: nat) in
      if 48 \<le> n \<and> n \<le> 57 then Some (of_nat (n - 48))
      else if 97 \<le> n \<and> n \<le> 102 then Some (of_nat (n - 87))
      else if 65 \<le> n \<and> n \<le> 70 then Some (of_nat (n - 55))
      else None)"

fun hex_Decode :: "string \<Rightarrow> 8 word list option" where
  "hex_Decode [] = Some []"
| "hex_Decode [c] = None"
| "hex_Decode (a # b # cs) =
     (case fromHexChar a of None \<Rightarrow> None
      | Some x \<Rightarrow> (case fromHexChar b of None \<Rightarrow> None
        | Some y \<Rightarrow> (case hex_Decode cs of None \<Rightarrow> None
          | Some bs \<Rightarrow> Some ((push_bit 4 x OR y) # bs))))"

definition ObjectIDFromHex :: "string \<Rightarrow> store_error + ObjectID" where
  "ObjectIDFromHex s =
     (if length s \<noteq> 24 then Inl ErrInvalidHex
      else case hex_Decode s of None \<Rightarrow> Inl InvalidByteError | Some bs \<Rightarrow> Inr bs)"

text \<open>\<open>ObjectID.Hex\<close>: two lower-case digits per byte.\<close>

definition hextable :: string where
  "hextable = ''0123456789abcdef''"

definition hex_byte :: "8 word \<Rightarrow> string" where
  "hex_byte b = [hextable ! unat (drop_bit 4 b), hextable ! unat (b AND 15)]"

definition Hex :: "ObjectID \<Rightarrow> string" where
  "Hex oid = concat (map hex_byte oid)"

text \<open>
  \<open>collection.FindOne(_id = objID).Decode(&product)\<close>: the document's \<open>_id\<close> is the
  key it is stored under, so the decoded \<open>ID\<close> is that key.
\<close>

definition collection_FindOne ::
  "environment \<Rightarrow> call_site \<Rightarrow> database \<Rightarrow> ObjectID \<Rightarrow> store_error + Product" where
  "collection_FindOne e site d objID =
     (case failure e site of Some err \<Rightarrow> Inl err
      | None \<Rightarrow> (case products d objID of None \<Rightarrow> Inl ErrNoDocuments
                 | Some p \<Rightarrow> Inr (p\<lparr>ID := objID\<rparr>)))"

text \<open>\<open>collection.InsertOne\<close>: the \<open>_id\<close> index is unique.\<close>

definition collection_InsertOne ::
  "environment \<Rightarrow> database \<Rightarrow> Product \<Rightarrow> store_error + database" where
  "collection_InsertOne e d product =
     (case failure e Create_InsertOne of Some err \<Rightarrow> Inl err
      | None \<Rightarrow> (case products d (ID product) of Some p \<Rightarrow> Inl ErrDuplicateKey
                 | None \<Rightarrow> Inr (d\<lparr>products := (products d)(ID product \<mapsto> product)\<rparr>)))"

text \<open>\<open>collection.ReplaceOne(_id = product.ID, product)\<close>: no match is not an error.\<close>

definition collection_ReplaceOne ::
  "environment \<Rightarrow> database \<Rightarrow> Product \<Rightarrow> store_error + database" where
  "collection_ReplaceOne e d product =
     (case failure e Update_ReplaceOne of Some err \<Rightarrow> Inl err
      | None \<Rightarrow> (case products d (ID product) of None \<Rightarrow> Inr d
                 | Some p \<Rightarrow> Inr (d\<lparr>products := (products d)(ID product \<mapsto> product)\<rparr>)))"

text \<open>\<open>opCollection.FindOne(operation_id = operationID)\<close>: the first such record.\<close>

definition opCollection_FindOne ::
  "environment \<Rightarrow> database \<Rightarrow> string \<Rightarrow> store_error + InventoryOperation" where
  "opCollection_FindOne e d operationID =
     (case failure e UpdateInventory_FindOperation of Some err \<Rightarrow> Inl err
      | None \<Rightarrow> (case find (\<lambda>op. OperationID op = operationID) (inventory_operations d) of
                   None \<Rightarrow> Inl ErrNoDocuments
                 | Some op \<Rightarrow> Inr op))"

definition opCollection_InsertOne ::
  "environment \<Rightarrow> database \<Rightarrow> InventoryOperation \<Rightarrow> store_error + database" where
  "opCollection_InsertOne e d op =
     (case failure e UpdateInventory_InsertOperation of Some err \<Rightarrow> Inl err
      | None \<Rightarrow> Inr (d\<lparr>inventory_operations := inventory_operations d @ [op]\<rparr>))"

text \<open>
  \<open>FindOneAndUpdate\<close> with \<open>$inc inventory.quantity\<close> and \<open>$set updated_at\<close>,
  returning the document after the update. The server adds exactly: a sum outside the
  64-bit range fails the update instead of wrapping.
\<close>

definition collection_FindOneAndUpdate ::
  "environment \<Rightarrow> database \<Rightarrow> ObjectID \<Rightarrow> go_int \<Rightarrow> store_error + Product \<times> database" where
  "collection_FindOneAndUpdate e d objID quantityChange =
     (case failure e UpdateInventory_FindOneAndUpdate of Some err \<Rightarrow> Inl err
      | None \<Rightarrow> (case products d objID of None \<Rightarrow> Inl ErrNoDocuments
        | Some p \<Rightarrow>
            (let s = sint (Quantity (Inventory p)) + sint quantityChange in
             if s < - (2 ^ 63) \<or> 2 ^ 63 \<le> s then Inl ErrIncOverflow
             else
               (let p' = p\<lparr>ID := objID,
                          Inventory := (Inventory p)\<lparr>Quantity := Quantity (Inventory p) + quantityChange\<rparr>,
                          UpdatedAt := time_Now e\<rparr>
                in Inr (p', d\<lparr>products := (products d)(objID \<mapsto> p')\<rparr>)))))"

text \<open>\<open>UpdateOne\<close> with \<open>$set inventory.in_stock\<close>.\<close>

definition collection_UpdateOne ::
  "environment \<Rightarrow> database \<Rightarrow> ObjectID \<Rightarrow> bool \<Rightarrow> store_error + database" where
  "collection_UpdateOne e d objID inStock =
     (case failure e UpdateInventory_UpdateOne of Some err \<Rightarrow> Inl err
      | None \<Rightarrow> (case products d objID of None \<Rightarrow> Inr d
        | Some p \<Rightarrow>
            Inr (d\<lparr>products := (products d)(objID \<mapsto> p\<lparr>Inventory := (Inventory p)\<lparr>InStock := inStock\<rparr>\<rparr>)\<rparr>)))"

section \<open>ProductRepository (internal/repository/mongodb/product\_repository.go)\<close>

text \<open>
  A method that writes returns its result and the database after the call. The Go methods
  change the product they are given in place; the model returns the changed product.
\<close>

definition ProductRepository_Create ::
  "environment \<Rightarrow> database \<Rightarrow> Product \<Rightarrow> (store_error + Product) \<times> database" where
  "ProductRepository_Create e d product0 =
     (let product1 = (if IsZero (ID product0) then product0\<lparr>ID := NewObjectID e\<rparr> else product0);
          product2 = (if CreatedAt product1 = 0 then product1\<lparr>CreatedAt := time_Now e\<rparr> else product1);
          product3 = product2\<lparr>UpdatedAt := time_Now e\<rparr>;
          product = product3\<lparr>Inventory :=
                      (Inventory product3)\<lparr>InStock := 0 < sint (Quantity (Inventory product3))\<rparr>\<rparr>
      in case collection_InsertOne e d product of
           Inl err \<Rightarrow> (Inl err, d)
         | Inr d' \<Rightarrow> (Inr product, d'))"

definition ProductRepository_GetByID ::
  "environment \<Rightarrow> database \<Rightarrow> string \<Rightarrow> store_error + Product" where
  "ProductRepository_GetByID e d productID =
     (case ObjectIDFromHex productID of Inl err \<Rightarrow> Inl err
      | Inr objID \<Rightarrow>
          (case collection_FindOne e GetByID_FindOne d objID of
             Inl err \<Rightarrow> (if err = ErrNoDocuments then Inl ErrProductNotFound else Inl err)
           | Inr product \<Rightarrow> Inr product))"

definition ProductRepository_Update ::
  "environment \<Rightarrow> database \<Rightarrow> Product \<Rightarrow> (store_error + Product) \<times> database" where
  "ProductRepository_Update e d product0 =
     (let product1 = product0\<lparr>UpdatedAt := time_Now e\<rparr>;
          product = product1\<lparr>Inventory :=
                      (Inventory product1)\<lparr>InStock := 0 < sint (Quantity (Inventory product1))\<rparr>\<rparr>
      in case collection_ReplaceOne e d product of
           Inl err \<Rightarrow> (Inl err, d)
         | Inr d' \<Rightarrow> (Inr product, d'))"

text \<open>
  \<open>UpdateInventory\<close>, lines 254 to 292: the increment, the recomputation of
  \<open>in_stock\<close> and the commit. The result is the inventory returned and the
  transaction's view of the database.
\<close>

definition UpdateInventory_apply ::
  "environment \<Rightarrow> database \<Rightarrow> ObjectID \<Rightarrow> go_int \<Rightarrow> store_error + InventoryInfo \<times> database" where
  "UpdateInventory_apply e d objID quantityChange =
     (case collection_FindOneAndUpdate e d objID quantityChange of
        Inl err \<Rightarrow> Inl err
      | Inr (product, d1) \<Rightarrow>
          (let inStock = 0 < sint (Quantity (Inventory product)) in
           if inStock \<noteq> InStock (Inventory product) then
             (case collection_UpdateOne e d1 objID inStock of
                Inl err \<Rightarrow> Inl err
              | Inr d2 \<Rightarrow>
                  (case failure e UpdateInventory_CommitTransaction of
                     Some err \<Rightarrow> Inl err
                   | None \<Rightarrow> Inr ((Inventory product)\<lparr>InStock := inStock\<rparr>, d2)))
           else
             (case failure e UpdateInventory_CommitTransaction of
                Some err \<Rightarrow> Inl err
              | None \<Rightarrow> Inr (Inventory product, d1))))"

text \<open>
  The function passed to \<open>mongo.WithSession\<close>, lines 212 to 293. When the operation is
  already recorded the function returns without committing and without having written.
\<close>

definition UpdateInventory_transaction ::
  "environment \<Rightarrow> database \<Rightarrow> ObjectID \<Rightarrow> string \<Rightarrow> go_int \<Rightarrow> string \<Rightarrow> string
     \<Rightarrow> store_error + InventoryInfo \<times> database" where
  "UpdateInventory_transaction e d objID productID quantityChange operationID operationType =
     (case failure e UpdateInventory_StartTransaction of Some err \<Rightarrow> Inl err
      | None \<Rightarrow>
          if operationID \<noteq> [] then
            (case opCollection_FindOne e d operationID of
               Inr existingOp \<Rightarrow>
                 (case collection_FindOne e UpdateInventory_FindProduct d objID of
                    Inl err \<Rightarrow> Inl err
                  | Inr product \<Rightarrow> Inr (Inventory product, d))
             | Inl err \<Rightarrow>
                 if err \<noteq> ErrNoDocuments then Inl err
                 else
                   (case opCollection_InsertOne e d
                           \<lparr>ProductID = productID, QuantityChange = quantityChange,
                            OperationID = operationID, OperationType = operationType,
                            Timestamp = time_Now e\<rparr> of
                      Inl err \<Rightarrow> Inl err
                    | Inr d1 \<Rightarrow> UpdateInventory_apply e d1 objID quantityChange))
          else UpdateInventory_apply e d objID quantityChange)"

text \<open>
  An error from the transaction function leaves the function without a commit, and
  \<open>session.EndSession\<close> aborts the open transaction: the database is the one before.
\<close>

definition ProductRepository_UpdateInventory ::
  "environment \<Rightarrow> database \<Rightarrow> string \<Rightarrow> go_int \<Rightarrow> string \<Rightarrow> string
     \<Rightarrow> (store_error + InventoryInfo) \<times> database" where
  "ProductRepository_UpdateInventory e d productID quantityChange operationID operationType =
     (case ObjectIDFromHex productID of Inl err \<Rightarrow> (Inl err, d)
      | Inr objID \<Rightarrow>
          (case failure e UpdateInventory_StartSession of Some err \<Rightarrow> (Inl err, d)
           | None \<Rightarrow>
               (case UpdateInventory_transaction e d objID productID quantityChange
                       operationID operationType of
                  Inl err \<Rightarrow> (Inl err, d)
                | Inr (updatedInventory, d') \<Rightarrow> (Inr updatedInventory, d'))))"

definition ProductRepository_CheckStock ::
  "environment \<Rightarrow> database \<Rightarrow> string \<Rightarrow> go_int \<Rightarrow> store_error + bool \<times> go_int" where
  "ProductRepository_CheckStock e d productID quantity =
     (case ObjectIDFromHex productID of Inl err \<Rightarrow> Inl err
      | Inr objID \<Rightarrow>
          (case collection_FindOne e CheckStock_FindOne d objID of
             Inl err \<Rightarrow> (if err = ErrNoDocuments then Inl ErrProductNotFound else Inl err)
           | Inr product \<Rightarrow>
               (let availableQuantity = Quantity (Inventory product) - Reserved (Inventory product)
                in Inr (sint quantity \<le> sint availableQuantity, availableQuantity))))"

section \<open>ProductService (internal/service/product\_service.go)\<close>

definition validateProduct :: "Product \<Rightarrow> validation_error option" where
  "validateProduct product =
     (if Name product = [] then Some NameRequired
      else if f64_le_zero (Price product) then Some PriceNotGreaterThanZero
      else if Category product = [] then Some CategoryRequired
      else if SKU (Inventory product) = [] then Some SKURequired
      else None)"

definition ProductService_CreateProduct ::
  "environment \<Rightarrow> database \<Rightarrow> Product \<Rightarrow> (service_error + Product) \<times> database" where
  "ProductService_CreateProduct e d product0 =
     (case validateProduct product0 of
        Some err \<Rightarrow> (Inl (ValidationError err), d)
      | None \<Rightarrow>
          (let product1 = (if IsZero (ID product0) then product0\<lparr>ID := NewObjectID e\<rparr> else product0);
               product2 = product1\<lparr>CreatedAt := time_Now e, UpdatedAt := time_Now e, Active := True\<rparr>;
               product = product2\<lparr>Inventory :=
                           (Inventory product2)\<lparr>InStock := 0 < sint (Quantity (Inventory product2))\<rparr>\<rparr>
           in case ProductRepository_Create e d product of
                (Inl err, d') \<Rightarrow> (Inl (RepositoryError err), d')
              | (Inr created, d') \<Rightarrow> (Inr created, d')))"

definition ProductService_GetProduct ::
  "environment \<Rightarrow> database \<Rightarrow> string \<Rightarrow> service_error + Product" where
  "ProductService_GetProduct e d productID =
     (case ProductRepository_GetByID e d productID of
        Inl err \<Rightarrow> Inl (RepositoryError err)
      | Inr product \<Rightarrow> Inr product)"

definition ProductService_UpdateProduct ::
  "environment \<Rightarrow> database \<Rightarrow> Product \<Rightarrow> (service_error + Product) \<times> database" where
  "ProductService_UpdateProduct e d product =
     (case ProductRepository_GetByID e d (Hex (ID product)) of
        Inl err \<Rightarrow> (Inl (ProductNotFoundError err), d)
      | Inr existingProduct0 \<Rightarrow>
          (let existingProduct1 =
                 (if Name product \<noteq> [] then existingProduct0\<lparr>Name := Name product\<rparr>
                  else existingProduct0);
               existingProduct2 =
                 (if Description product \<noteq> [] then existingProduct1\<lparr>Description := Description product\<rparr>
                  else existingProduct1);
               existingProduct3 =
                 (if f64_gt_zero (Price product) then existingProduct2\<lparr>Price := Price product\<rparr>
                  else existingProduct2);
               existingProduct4 =
                 (if 0 < length (ImageURLs product) then existingProduct3\<lparr>ImageURLs := ImageURLs product\<rparr>
                  else existingProduct3);
               existingProduct5 =
                 (if Category product \<noteq> [] then existingProduct4\<lparr>Category := Category product\<rparr>
                  else existingProduct4);
               existingProduct6 =
                 (if 0 < length (Tags product) then existingProduct5\<lparr>Tags := Tags product\<rparr>
                  else existingProduct5);
               existingProduct7 =
                 (if 0 < length (Attributes product) then existingProduct6\<lparr>Attributes := Attributes product\<rparr>
                  else existingProduct6);
               existingProduct8 =
                 (if SKU (Inventory product) \<noteq> []
                  then existingProduct7\<lparr>Inventory := (Inventory existingProduct7)\<lparr>SKU := SKU (Inventory product)\<rparr>\<rparr>
                  else existingProduct7);
               existingProduct9 = existingProduct8\<lparr>UpdatedAt := time_Now e\<rparr>;
               existingProduct =
                 (if Active product \<noteq> Active existingProduct9
                  then existingProduct9\<lparr>Active := Active product\<rparr>
                  else existingProduct9)
           in case ProductRepository_Update e d existingProduct of
                (Inl err, d') \<Rightarrow> (Inl (RepositoryError err), d')
              | (Inr updated, d') \<Rightarrow> (Inr updated, d')))"

definition validOperationTypes :: "string list" where
  "validOperationTypes = [''purchase'', ''restock'', ''reservation'', ''release'', ''adjustment'']"

text \<open>
  Lines 188 to 199 of \<open>UpdateInventory\<close>: the stock check before a purchase or a
  reservation that takes stock; \<open>None\<close> when the call goes on to the repository.
\<close>

definition UpdateInventory_stock_check ::
  "environment \<Rightarrow> database \<Rightarrow> string \<Rightarrow> go_int \<Rightarrow> string \<Rightarrow> service_error option" where
  "UpdateInventory_stock_check e d productID quantityChange operationType =
     (if (operationType = ''purchase'' \<or> operationType = ''reservation'') \<and> sint quantityChange < 0
      then
        (case ProductRepository_CheckStock e d productID (- quantityChange) of
           Inl err \<Rightarrow> Some (StockCheckError err)
         | Inr (available, current) \<Rightarrow> (if \<not> available then Some InsufficientStock else None))
      else None)"

definition ProductService_UpdateInventory ::
  "environment \<Rightarrow> database \<Rightarrow> string \<Rightarrow> go_int \<Rightarrow> string \<Rightarrow> string
     \<Rightarrow> (service_error + InventoryInfo) \<times> database" where
  "ProductService_UpdateInventory e d productID quantityChange operationID operationType =
     (if operationType \<notin> set validOperationTypes then (Inl InvalidOperationType, d)
      else
        (case UpdateInventory_stock_check e d productID quantityChange operationType of
           Some err \<Rightarrow> (Inl err, d)
         | None \<Rightarrow>
             (case ProductRepository_UpdateInventory e d productID quantityChange
                     operationID operationType of
                (Inl err, d') \<Rightarrow> (Inl (RepositoryError err), d')
              | (Inr updatedInventory, d') \<Rightarrow> (Inr updatedInventory, d'))))"

definition ProductService_CheckStock ::
  "environment \<Rightarrow> database \<Rightarrow> string \<Rightarrow> go_int \<Rightarrow> service_error + bool \<times> go_int" where
  "ProductService_CheckStock e d productID quantity =
     (case ProductRepository_CheckStock e d productID quantity of
        Inl err \<Rightarrow> Inl (RepositoryError err)
      | Inr (available, current) \<Rightarrow> Inr (available, current))"

section \<open>Notions the properties are stated with\<close>

text \<open>The inventory after an increment, with the flag recomputed (lines 254 to 287).\<close>

definition incremented :: "InventoryInfo \<Rightarrow> go_int \<Rightarrow> InventoryInfo" where
  "incremented i quantityChange =
     i\<lparr>Quantity := Quantity i + quantityChange, InStock := 0 < sint (Quantity i + quantityChange)\<rparr>"

text \<open>The record \<open>UpdateInventory\<close> inserts into \<open>inventory_operations\<close> (lines 242 to 248).\<close>

definition ledger_entry ::
  "environment \<Rightarrow> string \<Rightarrow> go_int \<Rightarrow> string \<Rightarrow> string \<Rightarrow> InventoryOperation" where
  "ledger_entry e productID quantityChange operationID operationType =
     \<lparr>ProductID = productID, QuantityChange = quantityChange, OperationID = operationID,
      OperationType = operationType, Timestamp = time_Now e\<rparr>"

text \<open>\<open>in_stock\<close> agrees with \<open>quantity > 0\<close>: for one inventory, for every stored product.\<close>

definition in_stock_consistent :: "InventoryInfo \<Rightarrow> bool" where
  "in_stock_consistent i = (InStock i = (0 < sint (Quantity i)))"

definition in_stock_invariant :: "database \<Rightarrow> bool" where
  "in_stock_invariant d =
     (\<forall>objID p. products d objID = Some p \<longrightarrow> in_stock_consistent (Inventory p))"

text \<open>The data model's \<open>0 \<le> reserved \<le> quantity\<close>: for one inventory, for every stored product.\<close>

definition reserved_within_quantity :: "InventoryInfo \<Rightarrow> bool" where
  "reserved_within_quantity i = (0 \<le> sint (Reserved i) \<and> sint (Reserved i) \<le> sint (Quantity i))"

definition stock_invariant :: "database \<Rightarrow> bool" where
  "stock_invariant d =
     (\<forall>objID p. products d objID = Some p \<longrightarrow> reserved_within_quantity (Inventory p))"

text \<open>
  A call of \<open>ProductService.UpdateInventory\<close> with its environment, and calls made one
  after the other: each starts from the database the one before left.
\<close>

record adjustment =
  adj_env :: environment
  adj_productID :: string
  adj_quantityChange :: go_int
  adj_operationID :: string
  adj_operationType :: string

definition submit :: "database \<Rightarrow> adjustment \<Rightarrow> database" where
  "submit d a =
     snd (ProductService_UpdateInventory (adj_env a) d (adj_productID a) (adj_quantityChange a)
            (adj_operationID a) (adj_operationType a))"

definition run_adjustments :: "database \<Rightarrow> adjustment list \<Rightarrow> database" where
  "run_adjustments d calls = foldl submit d calls"

text \<open>
  A call that takes stock is one the service checks first (a purchase or a reservation),
  and its change has a negation in Go's \<open>int\<close>.
\<close>

definition checked_decrease :: "adjustment \<Rightarrow> bool" where
  "checked_decrease a =
     (sint (adj_quantityChange a) < 0 \<longrightarrow>
        (adj_operationType a = ''purchase'' \<or> adj_operationType a = ''reservation'')
        \<and> - (2 ^ 63) < sint (adj_quantityChange a))"

section \<open>Sample data\<close>

text \<open>
  A product id, an environment in which no driver call fails, one in which the insert
  into \<open>inventory_operations\<close> meets a uniqueness violation, products and databases.
\<close>

definition sample_id :: string where
  "sample_id = ''507f1f77bcf86cd799439011''"

definition sample_oid :: ObjectID where
  "sample_oid = [0x50, 0x7f, 0x1f, 0x77, 0xbc, 0xf8, 0x6c, 0xd7, 0x99, 0x43, 0x90, 0x11]"

definition quiet :: environment where
  "quiet = \<lparr>time_Now = 1700000000, NewObjectID = sample_oid, failure = (\<lambda>site. None)\<rparr>"

definition racing :: environment where
  "racing = quiet\<lparr>failure :=
     (\<lambda>site. if site = UpdateInventory_InsertOperation then Some ErrDuplicateKey else None)\<rparr>"

definition sample_product :: "go_int \<Rightarrow> go_int \<Rightarrow> Product" where
  "sample_product q r =
     \<lparr>ID = sample_oid, Name = ''Test Product'', Description = ''This is a test product'',
      Price = Finite (9999 / 100), ImageURLs = [], Category = ''Electronics'',
      Inventory = \<lparr>Quantity = q, SKU = ''TEST-SKU-123'', InStock = 0 < sint q, Reserved = r\<rparr>,
      Tags = [''test''], Attributes = [], Active = True,
      CreatedAt = 1690000000, UpdatedAt = 1690000000\<rparr>"

definition sample_db :: "go_int \<Rightarrow> go_int \<Rightarrow> database" where
  "sample_db q r = \<lparr>products = [sample_oid \<mapsto> sample_product q r], inventory_operations = []\<rparr>"

definition empty_db :: database where
  "empty_db = \<lparr>products = Map.empty, inventory_operations = []\<rparr>"

definition sample_created :: Product where
  "sample_created = (sample_product 100 0)\<lparr>CreatedAt := 1700000000, UpdatedAt := 1700000000\<rparr>"

definition sample_update :: Product where
  "sample_update =
     \<lparr>ID = sample_oid, Name = ''Updated Product'', Description = ''This is an updated product'',
      Price = Finite (12999 / 100), ImageURLs = [], Category = [],
      Inventory = \<lparr>Quantity = 999, SKU = ''NEW-SKU-456'', InStock = False, Reserved = 7\<rparr>,
      Tags = [], Attributes = [], Active = True, CreatedAt = 0, UpdatedAt = 0\<rparr>"

definition sample_updated :: Product where
  "sample_updated =
     \<lparr>ID = sample_oid, Name = ''Updated Product'', Description = ''This is an updated product'',
      Price = Finite (12999 / 100), ImageURLs = [], Category = ''Electronics'',
      Inventory = \<lparr>Quantity = 100, SKU = ''NEW-SKU-456'', InStock = True, Reserved = 0\<rparr>,
      Tags = [''test''], Attributes = [], Active = True,
      CreatedAt = 1690000000, UpdatedAt = 1700000000\<rparr>"

definition sample_restocked :: InventoryInfo where
  "sample_restocked = \<lparr>Quantity = 10, SKU = ''TEST-SKU-123'', InStock = True, Reserved = 0\<rparr>"

definition sample_db_restocked :: database where
  "sample_db_restocked =
     \<lparr>products = [sample_oid \<mapsto> (sample_product 10 0)\<lparr>UpdatedAt := 1700000000\<rparr>],
      inventory_operations = [\<lparr>ProductID = sample_id, QuantityChange = 10, OperationID = ''op3'',
          OperationType = ''restock'', Timestamp = 1700000000\<rparr>]\<rparr>"

definition sample_sold_out :: InventoryInfo where
  "sample_sold_out = \<lparr>Quantity = 0, SKU = ''TEST-SKU-123'', InStock = False, Reserved = 0\<rparr>"

definition sample_db_after_op1 :: database where
  "sample_db_after_op1 =
     \<lparr>products = [sample_oid \<mapsto> (sample_product 0 0)\<lparr>UpdatedAt := 1700000000\<rparr>],
      inventory_operations = [\<lparr>ProductID = sample_id, QuantityChange = - 5, OperationID = ''op1'',
          OperationType = ''purchase'', Timestamp = 1700000000\<rparr>]\<rparr>"

definition sample_purchase :: adjustment where
  "sample_purchase = \<lparr>adj_env = quiet, adj_productID = sample_id, adj_quantityChange = - 5,
      adj_operationID = ''op1'', adj_operationType = ''purchase''\<rparr>"

definition sample_adjusted :: InventoryInfo where
  "sample_adjusted = \<lparr>Quantity = 90, SKU = ''TEST-SKU-123'', InStock = True, Reserved = 0\<rparr>"

definition sample_db_adjusted :: database where
  "sample_db_adjusted =
     \<lparr>products = [sample_oid \<mapsto> (sample_product 90 0)\<lparr>UpdatedAt := 1700000000\<rparr>],
      inventory_operations = []\<rparr>"

section \<open>Object ids\<close>

lemma sample_id_FromHex: "ObjectIDFromHex sample_id = Inr sample_oid"
  by (simp add: ObjectIDFromHex_def sample_id_def sample_oid_def fromHexChar_def)

lemma Hex_sample_oid: "Hex sample_oid = sample_id"
  by (simp add: Hex_def hex_byte_def hextable_def sample_id_def sample_oid_def)

lemma fromHexChar_hextable:
  assumes "n < 16"
  shows "fromHexChar (hextable ! n) = Some (of_nat n)"
proof -
  have sixteen: "(16::nat) = Suc (Suc (Suc (Suc (Suc (Suc (Suc (Suc (Suc (Suc (Suc (Suc (Suc (Suc (Suc (Suc 0)))))))))))))))"
    by simp
  have "\<forall>n<16. fromHexChar (hextable ! n) = Some (of_nat n)"
    unfolding sixteen by (simp add: All_less_Suc hextable_def fromHexChar_def)
  with assms show ?thesis by blast
qed

lemma high_nibble_less: "unat (drop_bit 4 (b :: 8 word)) < 16"
proof -
  have "unat b < 256" using unsigned_less [of b] by simp
  then have "unat b div 16 < 16" by simp
  moreover have "unat (drop_bit 4 b) = unat b div 16"
    by (simp add: drop_bit_eq_div unat_div)
  ultimately show ?thesis by simp
qed

lemma low_nibble_less: "unat ((b :: 8 word) AND 15) < 16"
proof -
  have "b AND 15 = take_bit 4 b"
    by (simp add: take_bit_eq_mask mask_eq_exp_minus_1)
  then have "unat (b AND 15) = take_bit 4 (unat b)"
    by (simp add: unsigned_take_bit_eq)
  then show ?thesis
    by (simp add: take_bit_eq_mod)
qed

lemma nibbles_join: "push_bit 4 (drop_bit 4 b) OR (b AND 15) = (b :: 8 word)"
proof -
  have "(15 :: 8 word) = mask 4" by (simp add: mask_eq_exp_minus_1)
  then show ?thesis
    by (simp add: bit_eq_iff bit_simps) (auto simp: bit_simps le_less_linear not_le)
qed

lemma hex_Decode_hex_byte:
  "hex_Decode (hex_byte b @ cs) = (case hex_Decode cs of None \<Rightarrow> None | Some bs \<Rightarrow> Some (b # bs))"
  by (simp add: hex_byte_def fromHexChar_hextable high_nibble_less low_nibble_less nibbles_join
      split: option.splits)

lemma hex_Decode_Hex: "hex_Decode (Hex oid) = Some oid"
  by (induction oid) (simp_all add: Hex_def hex_Decode_hex_byte)

lemma length_Hex: "length (Hex oid) = 2 * length oid"
  by (induction oid) (simp_all add: Hex_def hex_byte_def)

text \<open>An id of twelve bytes is read back from its hexadecimal form.\<close>

lemma ObjectIDFromHex_Hex:
  "ObjectIDFromHex (Hex oid) = (if length oid = 12 then Inr oid else Inl ErrInvalidHex)"
  by (simp add: ObjectIDFromHex_def hex_Decode_Hex length_Hex)

section \<open>Arithmetic of Go's int\<close>

lemma sint_sub_exact:
  fixes a b :: go_int
  assumes "- (2 ^ 63) \<le> sint a - sint b" and "sint a - sint b < 2 ^ 63"
  shows "sint (a - b) = sint a - sint b"
  using assms by (simp add: sint_word_ariths signed_take_bit_int_eq_self)

lemma sint_add_exact:
  fixes a b :: go_int
  assumes "- (2 ^ 63) \<le> sint a + sint b" and "sint a + sint b < 2 ^ 63"
  shows "sint (a + b) = sint a + sint b"
  using assms by (simp add: sint_word_ariths signed_take_bit_int_eq_self)

lemma sint_neg_exact:
  fixes a :: go_int
  assumes "- (2 ^ 63) < sint a"
  shows "sint (- a) = - sint a"
proof -
  have "sint a < 2 ^ 63" using sint_lt [of a] by simp
  with assms show ?thesis
    by (simp add: sint_word_ariths signed_take_bit_int_eq_self)
qed

section \<open>The repository's inventory update, step by step\<close>

lemma FindOneAndUpdate_Inr:
  assumes "collection_FindOneAndUpdate e d objID quantityChange = Inr (product, d1)"
  shows "\<exists>p. products d objID = Some p
           \<and> - (2 ^ 63) \<le> sint (Quantity (Inventory p)) + sint quantityChange
           \<and> sint (Quantity (Inventory p)) + sint quantityChange < 2 ^ 63
           \<and> product = p\<lparr>ID := objID,
                  Inventory := (Inventory p)\<lparr>Quantity := Quantity (Inventory p) + quantityChange\<rparr>,
                  UpdatedAt := time_Now e\<rparr>
           \<and> d1 = d\<lparr>products := (products d)(objID \<mapsto> product)\<rparr>"
  using assms
  by (auto simp: collection_FindOneAndUpdate_def Let_def split: option.splits if_splits)

text \<open>
  When the increment, the flag and the commit all go through, the inventory returned is
  the stored one with the change added and the flag recomputed, and it is what the
  database now holds for the product.
\<close>

lemma UpdateInventory_apply_Inr:
  assumes "UpdateInventory_apply e d objID quantityChange = Inr (info, d')"
  shows "\<exists>p. products d objID = Some p
           \<and> sint (Quantity info) = sint (Quantity (Inventory p)) + sint quantityChange
           \<and> info = incremented (Inventory p) quantityChange
           \<and> d' = d\<lparr>products := (products d)(objID \<mapsto>
                        p\<lparr>ID := objID, Inventory := info, UpdatedAt := time_Now e\<rparr>)\<rparr>"
proof -
  from assms obtain product d1 where
    fu: "collection_FindOneAndUpdate e d objID quantityChange = Inr (product, d1)"
    by (auto simp: UpdateInventory_apply_def split: sum.splits)
  from FindOneAndUpdate_Inr [OF fu] obtain p where
    p: "products d objID = Some p"
    and lo: "- (2 ^ 63) \<le> sint (Quantity (Inventory p)) + sint quantityChange"
    and hi: "sint (Quantity (Inventory p)) + sint quantityChange < 2 ^ 63"
    and product: "product = p\<lparr>ID := objID,
                  Inventory := (Inventory p)\<lparr>Quantity := Quantity (Inventory p) + quantityChange\<rparr>,
                  UpdatedAt := time_Now e\<rparr>"
    and d1: "d1 = d\<lparr>products := (products d)(objID \<mapsto> product)\<rparr>"
    by blast
  have q: "sint (Quantity (Inventory p) + quantityChange)
             = sint (Quantity (Inventory p)) + sint quantityChange"
    using lo hi by (rule sint_add_exact)
  from assms fu product d1 have
    "info = incremented (Inventory p) quantityChange
     \<and> d' = d\<lparr>products := (products d)(objID \<mapsto>
                        p\<lparr>ID := objID, Inventory := info, UpdatedAt := time_Now e\<rparr>)\<rparr>"
    by (cases p) (auto simp: UpdateInventory_apply_def collection_UpdateOne_def Let_def
        incremented_def split: sum.splits option.splits if_splits)
  with p q show ?thesis by (auto simp: incremented_def)
qed

text \<open>
  A transaction that returns an inventory either found the operation recorded, and then
  wrote nothing and returns what is stored, or applied the change once, after recording
  the operation when it has an id.
\<close>

lemma UpdateInventory_transaction_Inr:
  assumes "UpdateInventory_transaction e d objID productID quantityChange operationID operationType
             = Inr (info, d')"
  shows "\<exists>p. products d objID = Some p \<and>
          ((operationID \<noteq> [] \<and> d' = d \<and> info = Inventory p) \<or>
           (info = incremented (Inventory p) quantityChange
            \<and> sint (Quantity info) = sint (Quantity (Inventory p)) + sint quantityChange
            \<and> products d' = (products d)(objID \<mapsto>
                  p\<lparr>ID := objID, Inventory := info, UpdatedAt := time_Now e\<rparr>)
            \<and> inventory_operations d' =
                  (if operationID = [] then inventory_operations d
                   else inventory_operations d @
                          [ledger_entry e productID quantityChange operationID operationType])))"
proof -
  have st: "failure e UpdateInventory_StartTransaction = None"
    using assms by (cases "failure e UpdateInventory_StartTransaction")
      (simp_all add: UpdateInventory_transaction_def)
  show ?thesis
  proof (cases "operationID = []")
    case True
    with assms st have "UpdateInventory_apply e d objID quantityChange = Inr (info, d')"
      by (simp add: UpdateInventory_transaction_def)
    from UpdateInventory_apply_Inr [OF this] True show ?thesis
      by auto
  next
    case False
    show ?thesis
    proof (cases "opCollection_FindOne e d operationID")
      case (Inr existingOp)
      with assms st False have
        "(case collection_FindOne e UpdateInventory_FindProduct d objID of
            Inl err \<Rightarrow> Inl err | Inr product \<Rightarrow> Inr (Inventory product, d)) = Inr (info, d')"
        by (simp add: UpdateInventory_transaction_def)
      with False show ?thesis
        by (auto simp: collection_FindOne_def split: option.splits sum.splits)
    next
      case (Inl err)
      with assms st False have err: "err = ErrNoDocuments"
        by (cases "err = ErrNoDocuments") (simp_all add: UpdateInventory_transaction_def)
      let ?d1 = "d\<lparr>inventory_operations := inventory_operations d @
                [ledger_entry e productID quantityChange operationID operationType]\<rparr>"
      have ins: "failure e UpdateInventory_InsertOperation = None"
        using assms st False Inl err
        by (cases "failure e UpdateInventory_InsertOperation")
          (simp_all add: UpdateInventory_transaction_def opCollection_InsertOne_def)
      with assms st False Inl err have
        "UpdateInventory_apply e ?d1 objID quantityChange = Inr (info, d')"
        by (simp add: UpdateInventory_transaction_def opCollection_InsertOne_def ledger_entry_def)
      from UpdateInventory_apply_Inr [OF this] False show ?thesis
        by auto
    qed
  qed
qed

lemma ProductRepository_UpdateInventory_Inr:
  assumes "ProductRepository_UpdateInventory e d productID quantityChange operationID operationType
             = (Inr info, d')"
  shows "\<exists>objID p. ObjectIDFromHex productID = Inr objID \<and> products d objID = Some p \<and>
          ((operationID \<noteq> [] \<and> d' = d \<and> info = Inventory p) \<or>
           (info = incremented (Inventory p) quantityChange
            \<and> sint (Quantity info) = sint (Quantity (Inventory p)) + sint quantityChange
            \<and> products d' = (products d)(objID \<mapsto>
                  p\<lparr>ID := objID, Inventory := info, UpdatedAt := time_Now e\<rparr>)
            \<and> inventory_operations d' =
                  (if operationID = [] then inventory_operations d
                   else inventory_operations d @
                          [ledger_entry e productID quantityChange operationID operationType])))"
proof -
  from assms obtain objID where
    oid: "ObjectIDFromHex productID = Inr objID"
    and tx: "UpdateInventory_transaction e d objID productID quantityChange operationID operationType
             = Inr (info, d')"
    by (auto simp: ProductRepository_UpdateInventory_def split: option.splits sum.splits)
  from UpdateInventory_transaction_Inr [OF tx] oid show ?thesis
    by blast
qed

text \<open>A call that returns an error has committed nothing.\<close>

lemma ProductRepository_UpdateInventory_Inl:
  assumes "ProductRepository_UpdateInventory e d productID quantityChange operationID operationType
             = (Inl err, d')"
  shows "d' = d"
  using assms
  by (auto simp: ProductRepository_UpdateInventory_def split: option.splits sum.splits)

text \<open>The operation was not recorded: the call recorded it and applied the change.\<close>

lemma UpdateInventory_novel_Inr:
  assumes "ProductRepository_UpdateInventory e d productID quantityChange operationID operationType
             = (Inr info, d')"
      and "operationID \<noteq> []"
      and "opCollection_FindOne e d operationID = Inl ErrNoDocuments"
  shows "\<exists>objID p. ObjectIDFromHex productID = Inr objID \<and> products d objID = Some p
          \<and> info = incremented (Inventory p) quantityChange
          \<and> sint (Quantity info) = sint (Quantity (Inventory p)) + sint quantityChange
          \<and> d' = d\<lparr>inventory_operations := inventory_operations d @
                       [ledger_entry e productID quantityChange operationID operationType],
                    products := (products d)(objID \<mapsto>
                       p\<lparr>ID := objID, Inventory := info, UpdatedAt := time_Now e\<rparr>)\<rparr>"
proof -
  from assms(1) obtain objID where
    oid: "ObjectIDFromHex productID = Inr objID"
    and tx: "UpdateInventory_transaction e d objID productID quantityChange operationID operationType
             = Inr (info, d')"
    by (auto simp: ProductRepository_UpdateInventory_def split: option.splits sum.splits)
  have st: "failure e UpdateInventory_StartTransaction = None"
    using tx by (cases "failure e UpdateInventory_StartTransaction")
      (simp_all add: UpdateInventory_transaction_def)
  have ins: "failure e UpdateInventory_InsertOperation = None"
    using tx st assms(2,3)
    by (cases "failure e UpdateInventory_InsertOperation")
      (simp_all add: UpdateInventory_transaction_def opCollection_InsertOne_def)
  with tx st assms(2,3) have
    "UpdateInventory_apply e
       (d\<lparr>inventory_operations := inventory_operations d @
           [ledger_entry e productID quantityChange operationID operationType]\<rparr>)
       objID quantityChange = Inr (info, d')"
    by (simp add: UpdateInventory_transaction_def opCollection_InsertOne_def ledger_entry_def)
  from UpdateInventory_apply_Inr [OF this] oid show ?thesis
    by auto
qed

text \<open>The operation was recorded: the call writes nothing.\<close>

lemma UpdateInventory_found_Inr:
  assumes "ProductRepository_UpdateInventory e d productID quantityChange operationID operationType
             = (Inr info, d')"
      and "operationID \<noteq> []"
      and "opCollection_FindOne e d operationID = Inr existingOp"
  shows "d' = d"
proof -
  from assms(1) obtain objID where
    tx: "UpdateInventory_transaction e d objID productID quantityChange operationID operationType
             = Inr (info, d')"
    by (auto simp: ProductRepository_UpdateInventory_def split: option.splits sum.splits)
  have st: "failure e UpdateInventory_StartTransaction = None"
    using tx by (cases "failure e UpdateInventory_StartTransaction")
      (simp_all add: UpdateInventory_transaction_def)
  from tx st assms(2,3) show ?thesis
    by (auto simp: UpdateInventory_transaction_def split: sum.splits)
qed

lemma UpdateInventory_recorded:
  assumes "ObjectIDFromHex productID = Inr objID"
      and "failure e = (\<lambda>site. None)"
      and "operationID \<noteq> []"
      and "find (\<lambda>op. OperationID op = operationID) (inventory_operations d) = Some existingOp"
      and "products d objID = Some p"
  shows "ProductRepository_UpdateInventory e d productID quantityChange operationID operationType
           = (Inr (Inventory p), d)"
  using assms
  by (simp add: ProductRepository_UpdateInventory_def UpdateInventory_transaction_def
      opCollection_FindOne_def collection_FindOne_def)

lemma find_append_fresh:
  assumes "find P xs = None" and "P x"
  shows "find P (xs @ [x]) = Some x"
  using assms by (induction xs) (auto split: if_splits)

text \<open>
  The repository alone, no driver failure: after a first call with an operation id the
  ledger does not hold, the same call again returns the same inventory and leaves the
  database as the first call left it; the quantity has changed by the change once and
  the ledger has grown by one record.
\<close>

lemma UpdateInventory_first_then_replay:
  assumes first: "ProductRepository_UpdateInventory e d productID quantityChange operationID
             operationType = (Inr info, d1)"
      and ok: "failure e = (\<lambda>site. None)" "failure e' = (\<lambda>site. None)"
      and key: "operationID \<noteq> []"
      and fresh: "find (\<lambda>op. OperationID op = operationID) (inventory_operations d) = None"
  shows "ProductRepository_UpdateInventory e' d1 productID quantityChange operationID operationType
           = (Inr info, d1)
       \<and> inventory_operations d1 = inventory_operations d @
            [ledger_entry e productID quantityChange operationID operationType]
       \<and> (\<exists>objID p. ObjectIDFromHex productID = Inr objID \<and> products d objID = Some p
            \<and> sint (Quantity info) = sint (Quantity (Inventory p)) + sint quantityChange)"
proof -
  from ok(1) fresh have "opCollection_FindOne e d operationID = Inl ErrNoDocuments"
    by (simp add: opCollection_FindOne_def)
  from UpdateInventory_novel_Inr [OF first key this] obtain objID p where
    oid: "ObjectIDFromHex productID = Inr objID"
    and p: "products d objID = Some p"
    and q: "sint (Quantity info) = sint (Quantity (Inventory p)) + sint quantityChange"
    and d1: "d1 = d\<lparr>inventory_operations := inventory_operations d @
                       [ledger_entry e productID quantityChange operationID operationType],
                    products := (products d)(objID \<mapsto>
                       p\<lparr>ID := objID, Inventory := info, UpdatedAt := time_Now e\<rparr>)\<rparr>"
    by blast
  have "find (\<lambda>op. OperationID op = operationID) (inventory_operations d1)
          = Some (ledger_entry e productID quantityChange operationID operationType)"
    using fresh d1 by (simp add: find_append_fresh ledger_entry_def)
  moreover have "products d1 objID
          = Some (p\<lparr>ID := objID, Inventory := info, UpdatedAt := time_Now e\<rparr>)"
    using d1 by simp
  ultimately have "ProductRepository_UpdateInventory e' d1 productID quantityChange operationID
      operationType
        = (Inr (Inventory (p\<lparr>ID := objID, Inventory := info, UpdatedAt := time_Now e\<rparr>)), d1)"
    using oid ok(2) key by (rule_tac UpdateInventory_recorded)
  with oid p q d1 show ?thesis by auto
qed

section \<open>The other repository methods\<close>

lemma CheckStock_found:
  assumes "ObjectIDFromHex productID = Inr objID"
      and "failure e CheckStock_FindOne = None"
      and "products d objID = Some product"
  shows "ProductRepository_CheckStock e d productID quantity =
           Inr (sint quantity \<le> sint (Quantity (Inventory product) - Reserved (Inventory product)),
                Quantity (Inventory product) - Reserved (Inventory product))"
  using assms by (simp add: ProductRepository_CheckStock_def collection_FindOne_def Let_def)

lemma GetByID_Inr:
  assumes "ProductRepository_GetByID e d s = Inr p"
  shows "\<exists>objID p0. ObjectIDFromHex s = Inr objID \<and> products d objID = Some p0
           \<and> p = p0\<lparr>ID := objID\<rparr>"
  using assms
  by (auto simp: ProductRepository_GetByID_def collection_FindOne_def
      split: sum.splits option.splits if_splits)

lemma Update_Inr:
  assumes "ProductRepository_Update e d p = (Inr updated, d')"
      and "products d (ID p) = Some p0"
  shows "updated = p\<lparr>UpdatedAt := time_Now e,
                     Inventory := (Inventory p)\<lparr>InStock := 0 < sint (Quantity (Inventory p))\<rparr>\<rparr>
       \<and> d' = d\<lparr>products := (products d)(ID p \<mapsto> updated)\<rparr>"
  using assms
  by (cases p) (auto simp: ProductRepository_Update_def collection_ReplaceOne_def Let_def
      split: sum.splits option.splits)

lemma Create_Inr:
  assumes "ProductRepository_Create e d p = (Inr created, d')"
  shows "products d (ID created) = None
       \<and> d' = d\<lparr>products := (products d)(ID created \<mapsto> created)\<rparr>
       \<and> InStock (Inventory created) = (0 < sint (Quantity (Inventory created)))
       \<and> Quantity (Inventory created) = Quantity (Inventory p)"
  using assms
  by (auto simp: ProductRepository_Create_def collection_InsertOne_def Let_def
      split: sum.splits option.splits if_splits)

section \<open>The service methods\<close>

lemma ProductService_UpdateInventory_Inr:
  assumes "ProductService_UpdateInventory e d productID quantityChange operationID operationType
             = (Inr info, d')"
  shows "operationType \<in> set validOperationTypes
       \<and> UpdateInventory_stock_check e d productID quantityChange operationType = None
       \<and> ProductRepository_UpdateInventory e d productID quantityChange operationID operationType
             = (Inr info, d')"
  using assms
  by (auto simp: ProductService_UpdateInventory_def
      split: option.splits sum.splits prod.splits if_splits)

lemma ProductService_UpdateInventory_Inl:
  assumes "ProductService_UpdateInventory e d productID quantityChange operationID operationType
             = (Inl err, d')"
  shows "d' = d"
  using assms
  by (auto simp: ProductService_UpdateInventory_def
      dest: ProductRepository_UpdateInventory_Inl
      split: option.splits sum.splits prod.splits if_splits)

lemma CreateProduct_Inr:
  assumes "ProductService_CreateProduct e d product = (Inr created, d')"
  shows "validateProduct product = None
       \<and> products d (ID created) = None
       \<and> d' = d\<lparr>products := (products d)(ID created \<mapsto> created)\<rparr>
       \<and> InStock (Inventory created) = (0 < sint (Quantity (Inventory created)))
       \<and> Quantity (Inventory created) = Quantity (Inventory product)"
proof -
  from assms have v: "validateProduct product = None"
    by (cases "validateProduct product") (simp_all add: ProductService_CreateProduct_def)
  with assms obtain p where
    "ProductRepository_Create e d p = (Inr created, d')"
    "Quantity (Inventory p) = Quantity (Inventory product)"
    by (auto simp: ProductService_CreateProduct_def Let_def
        split: sum.splits prod.splits if_splits)
  with Create_Inr [of e d p created d'] v show ?thesis by simp
qed

lemma CreateProduct_Inl:
  assumes "ProductService_CreateProduct e d product = (Inl err, d')"
  shows "d' = d"
  using assms
  by (auto simp: ProductService_CreateProduct_def ProductRepository_Create_def Let_def
      split: sum.splits prod.splits option.splits)

text \<open>What \<open>validateProduct\<close> lets through, and what it stops before anything is stored.\<close>

lemma CreateProduct_validation:
  "(ProductService_CreateProduct e d product = (Inr created, d') \<longrightarrow>
      Name product \<noteq> [] \<and> Category product \<noteq> [] \<and> SKU (Inventory product) \<noteq> []
      \<and> \<not> f64_le_zero (Price product))
   \<and> (Name product = [] \<or> Category product = [] \<or> SKU (Inventory product) = []
        \<or> f64_le_zero (Price product) \<longrightarrow>
      (\<exists>err. ProductService_CreateProduct e d product = (Inl (ValidationError err), d)))"
  by (auto simp: ProductService_CreateProduct_def validateProduct_def Let_def
      split: option.splits if_splits)

lemma UpdateProduct_Inr:
  assumes "ProductService_UpdateProduct e d product = (Inr updated, d')"
  shows "\<exists>existing. products d (ID product) = Some existing
          \<and> ID updated = ID product
          \<and> Quantity (Inventory updated) = Quantity (Inventory existing)
          \<and> Reserved (Inventory updated) = Reserved (Inventory existing)
          \<and> SKU (Inventory updated) =
               (if SKU (Inventory product) \<noteq> [] then SKU (Inventory product)
                else SKU (Inventory existing))
          \<and> InStock (Inventory updated) = (0 < sint (Quantity (Inventory existing)))
          \<and> d' = d\<lparr>products := (products d)(ID product \<mapsto> updated)\<rparr>"
proof -
  from assms obtain existing0 where
    get: "ProductRepository_GetByID e d (Hex (ID product)) = Inr existing0"
    by (auto simp: ProductService_UpdateProduct_def split: sum.splits)
  from GetByID_Inr [OF get] obtain existing where
    ex: "products d (ID product) = Some existing"
    and e0: "existing0 = existing\<lparr>ID := ID product\<rparr>"
    by (auto simp: ObjectIDFromHex_Hex split: if_splits)
  obtain merged where
    upd: "ProductRepository_Update e d merged = (Inr updated, d')"
    and m_id: "ID merged = ID product"
    and m_q: "Quantity (Inventory merged) = Quantity (Inventory existing)"
    and m_r: "Reserved (Inventory merged) = Reserved (Inventory existing)"
    and m_s: "SKU (Inventory merged) =
               (if SKU (Inventory product) \<noteq> [] then SKU (Inventory product)
                else SKU (Inventory existing))"
    using assms get e0
    by (auto simp: ProductService_UpdateProduct_def Let_def split: sum.splits prod.splits)
  from Update_Inr [OF upd] ex m_id m_q m_r m_s show ?thesis
    by auto
qed

lemma UpdateProduct_Inl:
  assumes "ProductService_UpdateProduct e d product = (Inl err, d')"
  shows "d' = d"
  using assms
  by (auto simp: ProductService_UpdateProduct_def ProductRepository_Update_def Let_def
      split: sum.splits prod.splits option.splits)

text \<open>
  The stock check let a purchase or reservation through: the product was read and
  \<open>Quantity - Reserved >= -quantityChange\<close> held, in Go's arithmetic.
\<close>

lemma stock_check_passed:
  assumes "UpdateInventory_stock_check e d productID quantityChange operationType = None"
      and "operationType = ''purchase'' \<or> operationType = ''reservation''"
      and "sint quantityChange < 0"
      and "ObjectIDFromHex productID = Inr objID"
      and "products d objID = Some p"
  shows "sint (- quantityChange) \<le> sint (Quantity (Inventory p) - Reserved (Inventory p))"
proof (cases "failure e CheckStock_FindOne")
  case None
  from CheckStock_found [OF assms(4) None assms(5)] assms(1,2,3) show ?thesis
    by (auto simp: UpdateInventory_stock_check_def split: if_splits)
next
  case (Some err)
  with assms show ?thesis
    by (auto simp: UpdateInventory_stock_check_def ProductRepository_CheckStock_def
        collection_FindOne_def split: if_splits)
qed

text \<open>
  The stock check stops a purchase or reservation: the error is returned, the repository's
  \<open>UpdateInventory\<close> is not called, the database is the one given.
\<close>

lemma UpdateInventory_insufficient_stock:
  assumes "operationType = ''purchase'' \<or> operationType = ''reservation''"
      and "sint quantityChange < 0"
      and "ObjectIDFromHex productID = Inr objID"
      and "failure e CheckStock_FindOne = None"
      and "products d objID = Some p"
      and "sint (Quantity (Inventory p) - Reserved (Inventory p)) < sint (- quantityChange)"
  shows "ProductService_UpdateInventory e d productID quantityChange operationID operationType
           = (Inl InsufficientStock, d)"
  using assms CheckStock_found [OF assms(3,4,5), of "- quantityChange"]
  by (auto simp: ProductService_UpdateInventory_def UpdateInventory_stock_check_def
      validOperationTypes_def)

lemma UpdateInventory_delegates:
  assumes "operationType \<in> set validOperationTypes"
      and "UpdateInventory_stock_check e d productID quantityChange operationType = None"
  shows "ProductService_UpdateInventory e d productID quantityChange operationID operationType
           = (case ProductRepository_UpdateInventory e d productID quantityChange operationID
                     operationType of
                (Inl err, d') \<Rightarrow> (Inl (RepositoryError err), d')
              | (Inr updatedInventory, d') \<Rightarrow> (Inr updatedInventory, d'))"
  using assms by (simp add: ProductService_UpdateInventory_def)

section \<open>The two invariants, call by call\<close>

lemma in_stock_invariant_update:
  assumes "in_stock_invariant d" and "in_stock_consistent (Inventory p)"
  shows "in_stock_invariant (d\<lparr>products := (products d)(objID \<mapsto> p)\<rparr>)"
  using assms by (auto simp: in_stock_invariant_def)

lemma in_stock_consistent_incremented: "in_stock_consistent (incremented i quantityChange)"
  by (simp add: in_stock_consistent_def incremented_def)

lemma CreateProduct_in_stock_invariant:
  assumes "in_stock_invariant d"
  shows "in_stock_invariant (snd (ProductService_CreateProduct e d product))"
proof (cases "ProductService_CreateProduct e d product")
  case (Pair r d')
  show ?thesis
  proof (cases r)
    case (Inl err)
    with Pair CreateProduct_Inl assms show ?thesis by fastforce
  next
    case (Inr created)
    with Pair CreateProduct_Inr [of e d product created d'] assms show ?thesis
      by (simp add: in_stock_invariant_update in_stock_consistent_def)
  qed
qed

lemma UpdateProduct_in_stock_invariant:
  assumes "in_stock_invariant d"
  shows "in_stock_invariant (snd (ProductService_UpdateProduct e d product))"
proof (cases "ProductService_UpdateProduct e d product")
  case (Pair r d')
  show ?thesis
  proof (cases r)
    case (Inl err)
    with Pair UpdateProduct_Inl assms show ?thesis by fastforce
  next
    case (Inr updated)
    with Pair have "ProductService_UpdateProduct e d product = (Inr updated, d')" by simp
    from UpdateProduct_Inr [OF this] obtain existing where
      "InStock (Inventory updated) = (0 < sint (Quantity (Inventory updated)))"
      "d' = d\<lparr>products := (products d)(ID product \<mapsto> updated)\<rparr>"
      by auto
    with Pair assms show ?thesis
      by (simp add: in_stock_invariant_update in_stock_consistent_def)
  qed
qed

lemma UpdateInventory_in_stock_invariant:
  assumes "in_stock_invariant d"
  shows "in_stock_invariant
           (snd (ProductService_UpdateInventory e d productID quantityChange operationID operationType))"
proof (cases "ProductService_UpdateInventory e d productID quantityChange operationID operationType")
  case (Pair r d')
  show ?thesis
  proof (cases r)
    case (Inl err)
    with Pair ProductService_UpdateInventory_Inl assms show ?thesis by fastforce
  next
    case (Inr info)
    with Pair have "ProductRepository_UpdateInventory e d productID quantityChange operationID
        operationType = (Inr info, d')"
      by (simp add: ProductService_UpdateInventory_Inr)
    from ProductRepository_UpdateInventory_Inr [OF this] assms Pair show ?thesis
      by (auto simp: in_stock_invariant_def in_stock_consistent_incremented split: if_splits)
  qed
qed

text \<open>
  One call of the service keeps \<open>0 \<le> reserved \<le> quantity\<close> for every product, when a
  change below zero comes as a purchase or reservation whose negation exists.
\<close>

lemma submit_preserves_stock_invariant:
  assumes inv: "stock_invariant d" and chk: "checked_decrease a"
  shows "stock_invariant (submit d a)"
proof (cases "ProductService_UpdateInventory (adj_env a) d (adj_productID a) (adj_quantityChange a)
            (adj_operationID a) (adj_operationType a)")
  case (Pair r d')
  show ?thesis
  proof (cases r)
    case (Inl err)
    with Pair ProductService_UpdateInventory_Inl inv show ?thesis
      by (fastforce simp: submit_def)
  next
    case (Inr info)
    with Pair have svc: "ProductService_UpdateInventory (adj_env a) d (adj_productID a)
        (adj_quantityChange a) (adj_operationID a) (adj_operationType a) = (Inr info, d')"
      by simp
    note s = ProductService_UpdateInventory_Inr [OF svc]
    from s have repo: "ProductRepository_UpdateInventory (adj_env a) d (adj_productID a)
        (adj_quantityChange a) (adj_operationID a) (adj_operationType a) = (Inr info, d')"
      by simp
    from ProductRepository_UpdateInventory_Inr [OF repo] obtain objID p where
      oid: "ObjectIDFromHex (adj_productID a) = Inr objID"
      and p: "products d objID = Some p"
      and alt: "(adj_operationID a \<noteq> [] \<and> d' = d \<and> info = Inventory p) \<or>
           (info = incremented (Inventory p) (adj_quantityChange a)
            \<and> sint (Quantity info) = sint (Quantity (Inventory p)) + sint (adj_quantityChange a)
            \<and> products d' = (products d)(objID \<mapsto>
                  p\<lparr>ID := objID, Inventory := info, UpdatedAt := time_Now (adj_env a)\<rparr>))"
      by blast
    from inv p have rq: "0 \<le> sint (Reserved (Inventory p))"
        "sint (Reserved (Inventory p)) \<le> sint (Quantity (Inventory p))"
      by (auto simp: stock_invariant_def reserved_within_quantity_def)
    from alt show ?thesis
    proof
      assume "adj_operationID a \<noteq> [] \<and> d' = d \<and> info = Inventory p"
      with Pair inv show ?thesis by (simp add: submit_def)
    next
      assume ap: "info = incremented (Inventory p) (adj_quantityChange a)
            \<and> sint (Quantity info) = sint (Quantity (Inventory p)) + sint (adj_quantityChange a)
            \<and> products d' = (products d)(objID \<mapsto>
                  p\<lparr>ID := objID, Inventory := info, UpdatedAt := time_Now (adj_env a)\<rparr>)"
      then have ap_q: "sint (Quantity info)
                         = sint (Quantity (Inventory p)) + sint (adj_quantityChange a)"
        and ap_d: "products d' = (products d)(objID \<mapsto>
                  p\<lparr>ID := objID, Inventory := info, UpdatedAt := time_Now (adj_env a)\<rparr>)"
        by blast+
      from ap have ap_r: "Reserved info = Reserved (Inventory p)"
        by (simp add: incremented_def)
      have "sint (Reserved (Inventory p)) \<le> sint (Quantity info)"
      proof (cases "sint (adj_quantityChange a) < 0")
        case False
        with ap_q rq show ?thesis by linarith
      next
        case True
        with chk have ty: "adj_operationType a = ''purchase'' \<or> adj_operationType a = ''reservation''"
          and mn: "- (2 ^ 63) < sint (adj_quantityChange a)"
          by (auto simp: checked_decrease_def)
        from s have "UpdateInventory_stock_check (adj_env a) d (adj_productID a)
            (adj_quantityChange a) (adj_operationType a) = None" by simp
        from stock_check_passed [OF this ty True oid p]
        have "sint (- adj_quantityChange a)
                \<le> sint (Quantity (Inventory p) - Reserved (Inventory p))" .
        moreover have "sint (- adj_quantityChange a) = - sint (adj_quantityChange a)"
          using mn by (rule sint_neg_exact)
        moreover have "sint (Quantity (Inventory p) - Reserved (Inventory p))
            = sint (Quantity (Inventory p)) - sint (Reserved (Inventory p))"
        proof (rule sint_sub_exact)
          show "- (2 ^ 63) \<le> sint (Quantity (Inventory p)) - sint (Reserved (Inventory p))"
            using rq by simp
          show "sint (Quantity (Inventory p)) - sint (Reserved (Inventory p)) < 2 ^ 63"
            using rq sint_lt [of "Quantity (Inventory p)"] by simp
        qed
        ultimately show ?thesis using ap_q by linarith
      qed
      with ap_r rq have "reserved_within_quantity info"
        by (simp add: reserved_within_quantity_def)
      with ap_d inv have "stock_invariant d'"
        by (auto simp: stock_invariant_def)
      with Pair show ?thesis
        by (simp add: submit_def)
    qed
  qed
qed

lemma run_preserves_stock_invariant:
  assumes "stock_invariant d" and "\<forall>a\<in>set calls. checked_decrease a"
  shows "stock_invariant (run_adjustments d calls)"
  using assms unfolding run_adjustments_def
proof (induction calls arbitrary: d)
  case Nil
  then show ?case by simp
next
  case (Cons a calls)
  then show ?case by (simp add: submit_preserves_stock_invariant)
qed

section \<open>The methods on the sample data\<close>

lemmas repository_defs = ProductRepository_UpdateInventory_def UpdateInventory_transaction_def
  UpdateInventory_apply_def collection_FindOneAndUpdate_def collection_UpdateOne_def
  opCollection_FindOne_def opCollection_InsertOne_def collection_FindOne_def
  ProductRepository_CheckStock_def

lemmas service_defs = ProductService_UpdateInventory_def UpdateInventory_stock_check_def
  validOperationTypes_def

lemmas sample_defs = quiet_def sample_db_def sample_product_def

lemma CreateProduct_sample:
  "ProductService_CreateProduct quiet empty_db (sample_product 100 0)
     = (Inr sample_created,
        \<lparr>products = [sample_oid \<mapsto> sample_created], inventory_operations = []\<rparr>)"
  by (simp add: ProductService_CreateProduct_def ProductRepository_Create_def validateProduct_def
      collection_InsertOne_def f64_le_zero_def IsZero_def NilObjectID_def
      sample_defs sample_oid_def sample_created_def empty_db_def Let_def)

lemma UpdateProduct_sample:
  "ProductService_UpdateProduct quiet (sample_db 100 0) sample_update
     = (Inr sample_updated,
        \<lparr>products = [sample_oid \<mapsto> sample_updated], inventory_operations = []\<rparr>)"
  by (simp add: ProductService_UpdateProduct_def ProductRepository_GetByID_def
      ProductRepository_Update_def collection_FindOne_def collection_ReplaceOne_def
      Hex_sample_oid sample_id_FromHex sample_update_def sample_updated_def sample_defs
      f64_gt_zero_def Let_def)

lemma restock_sample:
  "ProductService_UpdateInventory quiet (sample_db 0 0) sample_id 10 ''op3'' ''restock''
     = (Inr sample_restocked, sample_db_restocked)"
  by (simp add: service_defs repository_defs sample_defs sample_restocked_def
      sample_db_restocked_def sample_id_FromHex Let_def)

lemma repository_restock_sample:
  "ProductRepository_UpdateInventory quiet (sample_db 0 0) sample_id 10 ''op3'' ''restock''
     = (Inr sample_restocked, sample_db_restocked)"
  by (simp add: repository_defs sample_defs sample_restocked_def
      sample_db_restocked_def sample_id_FromHex Let_def)

lemma repository_adjustment_sample:
  "ProductRepository_UpdateInventory quiet (sample_db 100 0) sample_id (- 10) [] ''adjustment''
     = (Inr sample_adjusted, sample_db_adjusted)"
  by (simp add: repository_defs sample_defs sample_adjusted_def
      sample_db_adjusted_def sample_id_FromHex Let_def)

lemma purchase_sample:
  "ProductService_UpdateInventory quiet (sample_db 5 0) sample_id (- 5) ''op1'' ''purchase''
     = (Inr sample_sold_out, sample_db_after_op1)"
  by (simp add: service_defs repository_defs sample_defs sample_sold_out_def
      sample_db_after_op1_def sample_id_FromHex Let_def)

lemma purchase_again_sample:
  "ProductService_UpdateInventory quiet sample_db_after_op1 sample_id (- 5) ''op1'' ''purchase''
     = (Inl InsufficientStock, sample_db_after_op1)"
  by (simp add: service_defs repository_defs sample_defs sample_db_after_op1_def
      sample_id_FromHex Let_def)

lemma repository_replay_sample:
  "ProductRepository_UpdateInventory quiet sample_db_after_op1 sample_id (- 5) ''op1'' ''purchase''
     = (Inr sample_sold_out, sample_db_after_op1)"
  by (simp add: repository_defs sample_defs sample_sold_out_def sample_db_after_op1_def
      sample_id_FromHex Let_def)

lemma run_sample:
  "run_adjustments (sample_db 5 0) [sample_purchase, sample_purchase] = sample_db_after_op1"
  by (simp add: run_adjustments_def submit_def sample_purchase_def
      purchase_sample purchase_again_sample)

lemma in_stock_invariant_sample_db: "in_stock_invariant (sample_db q r)"
  by (simp add: in_stock_invariant_def in_stock_consistent_def sample_db_def sample_product_def)

lemma stock_invariant_sample_db: "stock_invariant (sample_db 5 0)"
  by (simp add: stock_invariant_def reserved_within_quantity_def sample_db_def sample_product_def)

section \<open>Retrying an adjustment\<close>

text \<open>
  C1. The service checks the stock before the repository looks the operation id up, so
  a purchase that has been applied and has used up the stock is refused when it is sent
  again: with quantity 5 and nothing reserved, the purchase of 5 under \<open>op1\<close> returns
  the inventory with quantity 0 and records \<open>op1\<close>; the same call again returns the
  insufficient-stock error, not that inventory. The repository, called directly with
  the same arguments, does return it. (Lemma \<open>UpdateInventory_first_then_replay\<close> is
  the repository's side in general.)
\<close>

theorem retried_purchase_is_rejected:
  "ProductService_UpdateInventory quiet (sample_db 5 0) sample_id (- 5) ''op1'' ''purchase''
     = (Inr sample_sold_out, sample_db_after_op1)
   \<and> ProductService_UpdateInventory quiet sample_db_after_op1 sample_id (- 5) ''op1'' ''purchase''
     = (Inl InsufficientStock, sample_db_after_op1)
   \<and> ProductRepository_UpdateInventory quiet sample_db_after_op1 sample_id (- 5) ''op1'' ''purchase''
     = (Inr sample_sold_out, sample_db_after_op1)"
  by (simp add: purchase_sample purchase_again_sample repository_replay_sample)

section \<open>Quantities below zero\<close>

text \<open>
  C2, as the code has it. Start from a database in which every product has
  \<open>0 \<le> reserved \<le> quantity\<close>, and make calls of the service's \<open>UpdateInventory\<close> one
  after the other, where every call with a change below zero is a purchase or a
  reservation (the calls the service checks) and the change is above the least 64-bit
  integer. Then after any number of the calls every product has
  \<open>0 \<le> reserved \<le> quantity\<close>; its quantity is not negative.
\<close>

theorem quantity_never_negative:
  assumes "stock_invariant d" and "\<forall>a\<in>set calls. checked_decrease a"
      and "products (run_adjustments d (take n calls)) objID = Some p"
  shows "0 \<le> sint (Quantity (Inventory p))
       \<and> sint (Reserved (Inventory p)) \<le> sint (Quantity (Inventory p))"
proof -
  from assms(2) have "\<forall>a\<in>set (take n calls). checked_decrease a"
    by (meson in_set_takeD)
  with assms(1) have "stock_invariant (run_adjustments d (take n calls))"
    by (rule run_preserves_stock_invariant)
  with assms(3) have "reserved_within_quantity (Inventory p)"
    unfolding stock_invariant_def by blast
  then show ?thesis
    by (simp add: reserved_within_quantity_def)
qed

text \<open>C2, on the sample: a purchase of 5 from 5 in stock, sent twice.\<close>

theorem quantity_never_negative_witness:
  "stock_invariant (sample_db 5 0)
   \<and> checked_decrease sample_purchase
   \<and> products (run_adjustments (sample_db 5 0) (take 2 [sample_purchase, sample_purchase])) sample_oid
        = Some ((sample_product 0 0)\<lparr>UpdatedAt := 1700000000\<rparr>)
   \<and> 0 \<le> sint (Quantity (Inventory ((sample_product 0 0)\<lparr>UpdatedAt := 1700000000\<rparr>)))"
proof -
  have c: "\<forall>a\<in>set [sample_purchase, sample_purchase]. checked_decrease a"
    by (simp add: checked_decrease_def sample_purchase_def)
  have p: "products (run_adjustments (sample_db 5 0) (take 2 [sample_purchase, sample_purchase]))
             sample_oid
        = Some ((sample_product 0 0)\<lparr>UpdatedAt := 1700000000\<rparr>)"
    by (simp add: run_sample sample_db_after_op1_def)
  from quantity_never_negative [OF stock_invariant_sample_db c p] c p stock_invariant_sample_db
  show ?thesis by simp
qed

text \<open>
  C2 as stated fails: an \<open>adjustment\<close> of -10 is no purchase and no reservation, the
  service does not check it, and from quantity 0 it commits quantity -10.
\<close>

theorem unchecked_decrease_goes_negative:
  "ProductService_UpdateInventory quiet (sample_db 0 0) sample_id (- 10) [] ''adjustment''
     = (Inr \<lparr>Quantity = - 10, SKU = ''TEST-SKU-123'', InStock = False, Reserved = 0\<rparr>,
        \<lparr>products = [sample_oid \<mapsto> (sample_product (- 10) 0)\<lparr>UpdatedAt := 1700000000\<rparr>],
         inventory_operations = []\<rparr>)
   \<and> sint (- 10 :: go_int) < 0"
  by (simp add: service_defs repository_defs sample_defs sample_id_FromHex Let_def)

section \<open>The in-stock flag\<close>

text \<open>
  C3. A product that \<open>CreateProduct\<close> or \<open>UpdateProduct\<close> returns is the one stored, and
  its \<open>InStock\<close> is \<open>Quantity > 0\<close>. An inventory that \<open>UpdateInventory\<close> returns is the
  one stored for the product; either the call has written nothing (the operation was
  recorded before), or \<open>InStock\<close> is \<open>Quantity > 0\<close>. So if every stored product has
  the flag right before one of the three calls, every stored product has it right after.
\<close>

theorem in_stock_recomputed_with_every_write:
  "(ProductService_CreateProduct e d product = (Inr created, d1) \<longrightarrow>
      products d1 (ID created) = Some created \<and> in_stock_consistent (Inventory created))
 \<and> (ProductService_UpdateProduct e d product = (Inr updated, d2) \<longrightarrow>
      products d2 (ID updated) = Some updated \<and> in_stock_consistent (Inventory updated))
 \<and> (ProductService_UpdateInventory e d productID quantityChange operationID operationType
        = (Inr info, d3) \<longrightarrow>
      (\<exists>objID p. ObjectIDFromHex productID = Inr objID \<and> products d3 objID = Some p
          \<and> Inventory p = info)
      \<and> (d3 = d \<or> in_stock_consistent info))
 \<and> (in_stock_invariant d \<longrightarrow>
      in_stock_invariant (snd (ProductService_CreateProduct e d product))
    \<and> in_stock_invariant (snd (ProductService_UpdateProduct e d product))
    \<and> in_stock_invariant (snd (ProductService_UpdateInventory e d productID quantityChange
          operationID operationType)))"
proof -
  have create: "products d1 (ID created) = Some created \<and> in_stock_consistent (Inventory created)"
    if "ProductService_CreateProduct e d product = (Inr created, d1)"
    using CreateProduct_Inr [OF that] by (simp add: in_stock_consistent_def)
  have update: "products d2 (ID updated) = Some updated \<and> in_stock_consistent (Inventory updated)"
    if "ProductService_UpdateProduct e d product = (Inr updated, d2)"
    using UpdateProduct_Inr [OF that] by (auto simp: in_stock_consistent_def)
  have adjust: "(\<exists>objID p. ObjectIDFromHex productID = Inr objID \<and> products d3 objID = Some p
          \<and> Inventory p = info)
      \<and> (d3 = d \<or> in_stock_consistent info)"
    if "ProductService_UpdateInventory e d productID quantityChange operationID operationType
        = (Inr info, d3)"
  proof -
    from that have "ProductRepository_UpdateInventory e d productID quantityChange operationID
        operationType = (Inr info, d3)"
      by (simp add: ProductService_UpdateInventory_Inr)
    from ProductRepository_UpdateInventory_Inr [OF this] show ?thesis
      by (auto simp: in_stock_consistent_incremented)
  qed
  from create update adjust show ?thesis
    by (simp add: CreateProduct_in_stock_invariant UpdateProduct_in_stock_invariant
        UpdateInventory_in_stock_invariant)
qed

text \<open>
  C3, on the sample: a product created with quantity 100, an update of it, and the
  restock of 10 onto quantity 0, which turns the flag on in the same call.
\<close>

theorem in_stock_recomputed_with_every_write_witness:
  "ProductService_CreateProduct quiet empty_db (sample_product 100 0)
     = (Inr sample_created,
        \<lparr>products = [sample_oid \<mapsto> sample_created], inventory_operations = []\<rparr>)
   \<and> in_stock_consistent (Inventory sample_created)
   \<and> ProductService_UpdateProduct quiet (sample_db 100 0) sample_update
     = (Inr sample_updated,
        \<lparr>products = [sample_oid \<mapsto> sample_updated], inventory_operations = []\<rparr>)
   \<and> in_stock_consistent (Inventory sample_updated)
   \<and> ProductService_UpdateInventory quiet (sample_db 0 0) sample_id 10 ''op3'' ''restock''
     = (Inr sample_restocked, sample_db_restocked)
   \<and> in_stock_consistent sample_restocked
   \<and> in_stock_invariant (sample_db 0 0)
   \<and> in_stock_invariant sample_db_restocked"
proof -
  note t = in_stock_recomputed_with_every_write
  note create = t [THEN conjunct1, THEN mp, OF CreateProduct_sample]
  note update = t [THEN conjunct2, THEN conjunct1, THEN mp, OF UpdateProduct_sample]
  note adjust = t [THEN conjunct2, THEN conjunct2, THEN conjunct1, THEN mp, OF restock_sample]
  note keeps = t [where e = quiet and d = "sample_db 0 0" and productID = sample_id
      and quantityChange = 10 and operationID = "''op3''" and operationType = "''restock''",
      THEN conjunct2, THEN conjunct2, THEN conjunct2, THEN mp,
      OF in_stock_invariant_sample_db [of 0 0], THEN conjunct2, THEN conjunct2]
  have "in_stock_consistent sample_restocked"
    using adjust
    by (simp add: sample_db_def sample_db_restocked_def sample_restocked_def
        in_stock_consistent_def)
  with create update keeps show ?thesis
    by (simp add: CreateProduct_sample UpdateProduct_sample restock_sample
        in_stock_invariant_sample_db)
qed

section \<open>The stock check before a purchase or reservation\<close>

text \<open>
  C4. The service passes \<open>-quantityChange\<close> to the stock check. For the least 64-bit
  integer the negation wraps to the same negative number, which every available
  quantity exceeds: with quantity 100 and nothing reserved, a purchase with
  \<open>quantityChange = -9223372036854775808\<close> passes the check although 100 is less than
  9223372036854775808, reaches the repository, is recorded, and leaves the quantity at
  \<open>-9223372036854775708\<close>. (Lemmas \<open>UpdateInventory_insufficient_stock\<close> and
  \<open>UpdateInventory_delegates\<close> are the check for the comparison Go computes.)
\<close>

theorem purchase_of_least_int_passes_stock_check:
  "ProductService_UpdateInventory quiet (sample_db 100 0) sample_id (- 9223372036854775808)
       ''op2'' ''purchase''
     = (Inr \<lparr>Quantity = 100 - 9223372036854775808, SKU = ''TEST-SKU-123'', InStock = False,
             Reserved = 0\<rparr>,
        \<lparr>products = [sample_oid \<mapsto>
            (sample_product (100 - 9223372036854775808) 0)\<lparr>UpdatedAt := 1700000000\<rparr>],
         inventory_operations = [\<lparr>ProductID = sample_id, QuantityChange = - 9223372036854775808,
            OperationID = ''op2'', OperationType = ''purchase'', Timestamp = 1700000000\<rparr>]\<rparr>)
   \<and> sint (100 :: go_int) - sint (0 :: go_int) < - sint (- 9223372036854775808 :: go_int)
   \<and> sint (100 - 9223372036854775808 :: go_int) = - 9223372036854775708"
  by (simp add: service_defs repository_defs sample_defs sample_id_FromHex Let_def)

section \<open>The ledger of operations\<close>

text \<open>
  C5, as the code has it. Of a call of the repository's \<open>UpdateInventory\<close> that returns
  an inventory: with an empty operation id it leaves \<open>inventory_operations\<close> as it was
  and adds the change to the stored quantity; with an operation id that the lookup does
  not find it appends exactly one record, with the product id, change, operation id and
  type of the call; with an operation id that the lookup finds it writes nothing.
\<close>

theorem ledger_entries_per_call:
  assumes "ProductRepository_UpdateInventory e d productID quantityChange operationID operationType
             = (Inr info, d')"
  shows "(operationID = [] \<longrightarrow>
            inventory_operations d' = inventory_operations d
            \<and> (\<exists>objID p. ObjectIDFromHex productID = Inr objID \<and> products d objID = Some p
                 \<and> sint (Quantity info) = sint (Quantity (Inventory p)) + sint quantityChange
                 \<and> map_option Inventory (products d' objID) = Some info))
       \<and> (operationID \<noteq> [] \<and> opCollection_FindOne e d operationID = Inl ErrNoDocuments \<longrightarrow>
            inventory_operations d' = inventory_operations d @
              [\<lparr>ProductID = productID, QuantityChange = quantityChange, OperationID = operationID,
                OperationType = operationType, Timestamp = time_Now e\<rparr>])
       \<and> (operationID \<noteq> [] \<and> (\<exists>existingOp. opCollection_FindOne e d operationID = Inr existingOp)
            \<longrightarrow> d' = d)"
proof -
  have nokey: "inventory_operations d' = inventory_operations d
            \<and> (\<exists>objID p. ObjectIDFromHex productID = Inr objID \<and> products d objID = Some p
                 \<and> sint (Quantity info) = sint (Quantity (Inventory p)) + sint quantityChange
                 \<and> map_option Inventory (products d' objID) = Some info)"
    if k: "operationID = []"
    using ProductRepository_UpdateInventory_Inr [OF assms] k by auto
  have novel: "inventory_operations d' = inventory_operations d @
              [\<lparr>ProductID = productID, QuantityChange = quantityChange, OperationID = operationID,
                OperationType = operationType, Timestamp = time_Now e\<rparr>]"
    if k: "operationID \<noteq> [] \<and> opCollection_FindOne e d operationID = Inl ErrNoDocuments"
    using UpdateInventory_novel_Inr [OF assms] k by (auto simp: ledger_entry_def)
  have recorded: "d' = d"
    if k: "operationID \<noteq> [] \<and> (\<exists>existingOp. opCollection_FindOne e d operationID = Inr existingOp)"
    using UpdateInventory_found_Inr [OF assms] k by blast
  from nokey novel recorded show ?thesis by blast
qed

text \<open>
  C5, on the sample: an adjustment without operation id, a restock under \<open>op3\<close>, and the
  purchase under \<open>op1\<close> sent again.
\<close>

theorem ledger_entries_per_call_witness:
  "ProductRepository_UpdateInventory quiet (sample_db 100 0) sample_id (- 10) [] ''adjustment''
     = (Inr sample_adjusted, sample_db_adjusted)
   \<and> inventory_operations sample_db_adjusted = inventory_operations (sample_db 100 0)
   \<and> ProductRepository_UpdateInventory quiet (sample_db 0 0) sample_id 10 ''op3'' ''restock''
     = (Inr sample_restocked, sample_db_restocked)
   \<and> opCollection_FindOne quiet (sample_db 0 0) ''op3'' = Inl ErrNoDocuments
   \<and> inventory_operations sample_db_restocked = inventory_operations (sample_db 0 0) @
        [\<lparr>ProductID = sample_id, QuantityChange = 10, OperationID = ''op3'',
          OperationType = ''restock'', Timestamp = time_Now quiet\<rparr>]
   \<and> ProductRepository_UpdateInventory quiet sample_db_after_op1 sample_id (- 5) ''op1'' ''purchase''
     = (Inr sample_sold_out, sample_db_after_op1)"
proof -
  note t = ledger_entries_per_call
  have miss: "''op3'' \<noteq> [] \<and> opCollection_FindOne quiet (sample_db 0 0) ''op3'' = Inl ErrNoDocuments"
    by (simp add: opCollection_FindOne_def sample_defs)
  have hit: "''op1'' \<noteq> [] \<and>
      (\<exists>existingOp. opCollection_FindOne quiet sample_db_after_op1 ''op1'' = Inr existingOp)"
    by (simp add: opCollection_FindOne_def quiet_def sample_db_after_op1_def)
  note nokey = t [OF repository_adjustment_sample, THEN conjunct1, THEN mp, OF refl]
  note novel = t [OF repository_restock_sample, THEN conjunct2, THEN conjunct1, THEN mp, OF miss]
  note recorded = t [OF repository_replay_sample, THEN conjunct2, THEN conjunct2, THEN mp, OF hit]
  from nokey novel recorded miss show ?thesis
    by (simp add: repository_adjustment_sample repository_restock_sample repository_replay_sample)
qed

text \<open>
  C5 as stated fails: a call with an empty operation id is applied and records no
  ledger entry.
\<close>

theorem empty_key_records_no_ledger_entry:
  "ProductService_UpdateInventory quiet (sample_db 100 0) sample_id (- 10) [] ''adjustment''
     = (Inr \<lparr>Quantity = 90, SKU = ''TEST-SKU-123'', InStock = True, Reserved = 0\<rparr>,
        \<lparr>products = [sample_oid \<mapsto> (sample_product 90 0)\<lparr>UpdatedAt := 1700000000\<rparr>],
         inventory_operations = []\<rparr>)"
  by (simp add: service_defs repository_defs sample_defs sample_id_FromHex Let_def)

text \<open>
  C6, as the code has it. When the insert into \<open>inventory_operations\<close> is reached and
  fails, with a uniqueness violation or any other error, the repository's
  \<open>UpdateInventory\<close> returns that error and the database it was given: no inventory is
  written, no record is added. The service, when it has reached the repository, returns
  the error wrapped as a repository error.
\<close>

theorem ledger_insert_failure_propagates:
  assumes "ObjectIDFromHex productID = Inr objID"
      and "failure e UpdateInventory_StartSession = None"
      and "failure e UpdateInventory_StartTransaction = None"
      and "operationID \<noteq> []"
      and "opCollection_FindOne e d operationID = Inl ErrNoDocuments"
      and "failure e UpdateInventory_InsertOperation = Some err"
  shows "ProductRepository_UpdateInventory e d productID quantityChange operationID operationType
           = (Inl err, d)
       \<and> (operationType \<in> set validOperationTypes
            \<and> UpdateInventory_stock_check e d productID quantityChange operationType = None
          \<longrightarrow> ProductService_UpdateInventory e d productID quantityChange operationID operationType
                = (Inl (RepositoryError err), d))"
  using assms
  by (simp add: ProductRepository_UpdateInventory_def UpdateInventory_transaction_def
      opCollection_InsertOne_def ProductService_UpdateInventory_def)

text \<open>C6, on the sample: a restock under \<open>op3\<close> whose insert meets a uniqueness violation.\<close>

theorem ledger_insert_failure_propagates_witness:
  "ProductRepository_UpdateInventory racing (sample_db 0 0) sample_id 10 ''op3'' ''restock''
     = (Inl ErrDuplicateKey, sample_db 0 0)
   \<and> ProductService_UpdateInventory racing (sample_db 0 0) sample_id 10 ''op3'' ''restock''
     = (Inl (RepositoryError ErrDuplicateKey), sample_db 0 0)"
proof -
  have h2: "failure racing UpdateInventory_StartSession = None"
    and h3: "failure racing UpdateInventory_StartTransaction = None"
    and h6: "failure racing UpdateInventory_InsertOperation = Some ErrDuplicateKey"
    by (simp_all add: racing_def quiet_def)
  have h4: "''op3'' \<noteq> []" by simp
  have h5: "opCollection_FindOne racing (sample_db 0 0) ''op3'' = Inl ErrNoDocuments"
    by (simp add: opCollection_FindOne_def racing_def sample_defs)
  have h7: "''restock'' \<in> set validOperationTypes
      \<and> UpdateInventory_stock_check racing (sample_db 0 0) sample_id 10 ''restock'' = None"
    by (simp add: validOperationTypes_def UpdateInventory_stock_check_def)
  note t = ledger_insert_failure_propagates [OF sample_id_FromHex h2 h3 h4 h5 h6,
      of 10 "''restock''"]
  from t [THEN conjunct1] t [THEN conjunct2, THEN mp, OF h7] show ?thesis
    by simp
qed

text \<open>
  C6 as stated fails: the purchase under \<open>op1\<close> whose insert meets a uniqueness
  violation returns an error, not the stored inventory.
\<close>

theorem uniqueness_violation_is_returned_as_error:
  "ProductService_UpdateInventory racing (sample_db 100 0) sample_id (- 5) ''op1'' ''purchase''
     = (Inl (RepositoryError ErrDuplicateKey), sample_db 100 0)"
  by (simp add: service_defs repository_defs racing_def sample_defs sample_id_FromHex Let_def)

section \<open>Checking stock\<close>

text \<open>With \<open>0 \<le> reserved \<le> quantity\<close> the difference of the two is a 64-bit value.\<close>

lemma reserved_within_quantity_in_range:
  assumes "reserved_within_quantity i"
  shows "- (2 ^ 63) \<le> sint (Quantity i) - sint (Reserved i)
       \<and> sint (Quantity i) - sint (Reserved i) < 2 ^ 63"
  using assms sint_lt [of "Quantity i"] by (simp add: reserved_within_quantity_def)

text \<open>
  C7, as the code has it. For a product that exists and is read, and whose
  \<open>quantity - reserved\<close> is a 64-bit value (as it is whenever
  \<open>0 \<le> reserved \<le> quantity\<close>), the repository's and the service's \<open>CheckStock\<close>
  return the pair \<open>(available, currentAvailable)\<close> with
  \<open>available = (quantity - reserved \<ge> requested)\<close> and
  \<open>currentAvailable = quantity - reserved\<close>, both in the integers; the second component
  is the same whether or not \<open>available\<close> holds. Neither method returns a database:
  they only read.
\<close>

theorem CheckStock_available_quantity_in_range:
  assumes "ObjectIDFromHex productID = Inr objID"
      and "failure e CheckStock_FindOne = None"
      and "products d objID = Some product"
      and "- (2 ^ 63) \<le> sint (Quantity (Inventory product)) - sint (Reserved (Inventory product))"
      and "sint (Quantity (Inventory product)) - sint (Reserved (Inventory product)) < 2 ^ 63"
  shows "ProductRepository_CheckStock e d productID quantity =
           Inr (sint quantity \<le> sint (Quantity (Inventory product)) - sint (Reserved (Inventory product)),
                Quantity (Inventory product) - Reserved (Inventory product))
       \<and> ProductService_CheckStock e d productID quantity =
           Inr (sint quantity \<le> sint (Quantity (Inventory product)) - sint (Reserved (Inventory product)),
                Quantity (Inventory product) - Reserved (Inventory product))
       \<and> sint (Quantity (Inventory product) - Reserved (Inventory product))
            = sint (Quantity (Inventory product)) - sint (Reserved (Inventory product))"
proof -
  have exact: "sint (Quantity (Inventory product) - Reserved (Inventory product))
            = sint (Quantity (Inventory product)) - sint (Reserved (Inventory product))"
    using assms(4,5) by (rule sint_sub_exact)
  from CheckStock_found [OF assms(1,2,3), of quantity] exact show ?thesis
    by (simp add: ProductService_CheckStock_def)
qed

text \<open>C7, on the sample: 5 asked of 100, and 5 asked of 3.\<close>

theorem CheckStock_available_quantity_in_range_witness:
  "ProductRepository_CheckStock quiet (sample_db 100 0) sample_id 5 = Inr (True, 100)
   \<and> ProductService_CheckStock quiet (sample_db 100 0) sample_id 5 = Inr (True, 100)
   \<and> ProductService_CheckStock quiet (sample_db 3 0) sample_id 5 = Inr (False, 3)
   \<and> sint (3 - 0 :: go_int) = 3 - 0"
proof -
  have f: "failure quiet CheckStock_FindOne = None"
    by (simp add: quiet_def)
  have p100: "products (sample_db 100 0) sample_oid = Some (sample_product 100 0)"
    and p3: "products (sample_db 3 0) sample_oid = Some (sample_product 3 0)"
    by (simp_all add: sample_db_def)
  have r100: "- (2 ^ 63) \<le> sint (Quantity (Inventory (sample_product 100 0)))
                   - sint (Reserved (Inventory (sample_product 100 0)))"
      "sint (Quantity (Inventory (sample_product 100 0)))
          - sint (Reserved (Inventory (sample_product 100 0))) < 2 ^ 63"
    and r3: "- (2 ^ 63) \<le> sint (Quantity (Inventory (sample_product 3 0)))
                   - sint (Reserved (Inventory (sample_product 3 0)))"
      "sint (Quantity (Inventory (sample_product 3 0)))
          - sint (Reserved (Inventory (sample_product 3 0))) < 2 ^ 63"
    by (simp_all add: sample_product_def)
  from CheckStock_available_quantity_in_range [OF sample_id_FromHex f p100 r100, of 5]
       CheckStock_available_quantity_in_range [OF sample_id_FromHex f p3 r3, of 5]
  show ?thesis
    by (simp add: sample_product_def)
qed

text \<open>
  C7 as stated fails: \<open>CreateProduct\<close> stores the quantity and the reserved number it is
  given, and for quantity -9223372036854775808 with 1 reserved the difference wraps:
  asked for 1, \<open>CheckStock\<close> answers available with 9223372036854775807 at hand, where
  \<open>quantity - reserved\<close> is -9223372036854775809, less than 1.
\<close>

theorem CheckStock_difference_wraps:
  "fst (ProductService_CreateProduct quiet empty_db (sample_product (- 9223372036854775808) 1))
     = Inr ((sample_product (- 9223372036854775808) 1)
              \<lparr>CreatedAt := 1700000000, UpdatedAt := 1700000000\<rparr>)
   \<and> ProductRepository_CheckStock quiet (sample_db (- 9223372036854775808) 1) sample_id 1
     = Inr (True, 9223372036854775807)
   \<and> ProductService_CheckStock quiet (sample_db (- 9223372036854775808) 1) sample_id 1
     = Inr (True, 9223372036854775807)
   \<and> sint (- 9223372036854775808 :: go_int) - sint (1 :: go_int) = - 9223372036854775809
   \<and> \<not> sint (1 :: go_int) \<le> sint (- 9223372036854775808 :: go_int) - sint (1 :: go_int)"
  by (simp add: ProductService_CreateProduct_def ProductRepository_Create_def validateProduct_def
      collection_InsertOne_def f64_le_zero_def IsZero_def NilObjectID_def empty_db_def
      ProductService_CheckStock_def ProductRepository_CheckStock_def collection_FindOne_def
      sample_defs sample_oid_def sample_id_FromHex Let_def)

section \<open>The operation type\<close>

text \<open>
  C8. \<open>ProductService.UpdateInventory\<close> with an operation type outside
  \<open>purchase\<close>, \<open>restock\<close>, \<open>reservation\<close>, \<open>release\<close>, \<open>adjustment\<close> returns the
  invalid-operation error and the database it was given, whatever the environment and
  the database are: no driver call decides the result, none writes. With an operation
  type of the vocabulary the result is never that error.
\<close>

theorem invalid_operation_type_rejected_first:
  "(operationType \<notin> set validOperationTypes \<longrightarrow>
      ProductService_UpdateInventory e d productID quantityChange operationID operationType
        = (Inl InvalidOperationType, d)) \<and>
   (operationType \<in> set validOperationTypes \<longrightarrow>
      fst (ProductService_UpdateInventory e d productID quantityChange operationID operationType)
        \<noteq> Inl InvalidOperationType)"
  by (auto simp: ProductService_UpdateInventory_def UpdateInventory_stock_check_def
      split: option.splits sum.splits prod.splits if_splits)

text \<open>C8, on the sample: \<open>refund\<close> is refused, \<open>restock\<close> is not.\<close>

theorem invalid_operation_type_rejected_first_witness:
  "ProductService_UpdateInventory quiet (sample_db 100 0) sample_id (- 5) ''op1'' ''refund''
      = (Inl InvalidOperationType, sample_db 100 0)
   \<and> fst (ProductService_UpdateInventory quiet (sample_db 100 0) sample_id 10 ''op3'' ''restock'')
      \<noteq> Inl InvalidOperationType"
  using invalid_operation_type_rejected_first
          [of "''refund''" quiet "sample_db 100 0" sample_id "- 5" "''op1''"]
        invalid_operation_type_rejected_first
          [of "''restock''" quiet "sample_db 100 0" sample_id 10 "''op3''"]
  by (simp add: validOperationTypes_def)

section \<open>Creating and updating products\<close>

text \<open>
  C9. \<open>validateProduct\<close> refuses a price with \<open>Price <= 0\<close>, which is false for NaN:
  a product with name, category and SKU and the price NaN passes the validation, is
  created and stored, although its price is not greater than zero. (Lemma
  \<open>CreateProduct_validation\<close> is what the validation does in general.)
\<close>

theorem NaN_price_passes_validation:
  "ProductService_CreateProduct quiet empty_db ((sample_product 100 0)\<lparr>Price := NaN\<rparr>)
     = (Inr (sample_created\<lparr>Price := NaN\<rparr>),
        \<lparr>products = [sample_oid \<mapsto> sample_created\<lparr>Price := NaN\<rparr>], inventory_operations = []\<rparr>)
   \<and> \<not> f64_gt_zero NaN"
  by (simp add: ProductService_CreateProduct_def ProductRepository_Create_def validateProduct_def
      collection_InsertOne_def f64_le_zero_def f64_gt_zero_def IsZero_def NilObjectID_def
      sample_defs sample_oid_def sample_created_def empty_db_def Let_def)

text \<open>
  C10. A product that \<open>UpdateProduct\<close> returns has the quantity and the reserved
  number of the stored product it read, whatever the request's inventory holds; its SKU
  is the request's when that is not empty; its \<open>InStock\<close> is computed from the
  unchanged quantity. It is what the database holds afterwards, and
  \<open>inventory_operations\<close> is untouched.
\<close>

theorem UpdateProduct_keeps_quantity_and_reserved:
  assumes "ProductService_UpdateProduct e d product = (Inr updated, d')"
  shows "\<exists>existing. products d (ID product) = Some existing
          \<and> Quantity (Inventory updated) = Quantity (Inventory existing)
          \<and> Reserved (Inventory updated) = Reserved (Inventory existing)
          \<and> SKU (Inventory updated) =
               (if SKU (Inventory product) \<noteq> [] then SKU (Inventory product)
                else SKU (Inventory existing))
          \<and> InStock (Inventory updated) = (0 < sint (Quantity (Inventory existing)))
          \<and> products d' (ID product) = Some updated
          \<and> inventory_operations d' = inventory_operations d"
  using UpdateProduct_Inr [OF assms] by auto

text \<open>
  C10, on the sample: the request asks for quantity 999 and 7 reserved; the stored 100
  and 0 stay, the SKU changes.
\<close>

theorem UpdateProduct_keeps_quantity_and_reserved_witness:
  "ProductService_UpdateProduct quiet (sample_db 100 0) sample_update
     = (Inr sample_updated,
        \<lparr>products = [sample_oid \<mapsto> sample_updated], inventory_operations = []\<rparr>)
   \<and> Quantity (Inventory sample_update) = 999 \<and> Reserved (Inventory sample_update) = 7
   \<and> Quantity (Inventory sample_updated) = 100 \<and> Reserved (Inventory sample_updated) = 0
   \<and> SKU (Inventory sample_updated) = ''NEW-SKU-456'' \<and> InStock (Inventory sample_updated)"
  using UpdateProduct_keeps_quantity_and_reserved [OF UpdateProduct_sample] UpdateProduct_sample
  by (simp add: sample_update_def sample_updated_def sample_defs)

end
